theory Spec2Isabelle
  imports
    Complex_Main
    "HOL-Library.AList"
    "HOL-Library.Char_ord"
    "HOL-Library.List_Lexorder"
    "HOL-Library.Product_Lexorder"
begin

section \<open>Python strings\<close>

text \<open>
  A Python \<open>str\<close> is modelled as a \<open>string\<close> holding its UTF-8 bytes: every ASCII
  character is one \<open>char\<close>, and the currency signs the code looks for are the byte
  sequences below. Substring tests, \<open>replace\<close>, \<open>split\<close> and comparison agree on
  UTF-8 bytes and on code points. The case mappings and the white space of \<open>strip\<close> are
  those of ASCII: what \<open>str.lower\<close>, \<open>str.upper\<close>, \<open>str.title\<close>, \<open>str.strip\<close> and
  the \<open>\d\<close> and \<open>\s\<close> classes of \<open>re\<close> do to characters beyond ASCII is not modelled
  (bytes from 0x80 on are left alone and belong to no class).
\<close>

definition euro :: string where
  "euro = [CHR 0xE2, CHR 0x82, CHR 0xAC]"

definition dollar :: string where
  "dollar = ''$''"

definition pound :: string where
  "pound = [CHR 0xC2, CHR 0xA3]"

definition is_space :: "char \<Rightarrow> bool" where
  "is_space c = (let n = (of_char c :: nat) in (9 \<le> n \<and> n \<le> 13) \<or> (28 \<le> n \<and> n \<le> 32))"

definition is_digit :: "char \<Rightarrow> bool" where
  "is_digit c = (let n = (of_char c :: nat) in 48 \<le> n \<and> n \<le> 57)"

definition is_lower :: "char \<Rightarrow> bool" where
  "is_lower c = (let n = (of_char c :: nat) in 97 \<le> n \<and> n \<le> 122)"

definition is_upper :: "char \<Rightarrow> bool" where
  "is_upper c = (let n = (of_char c :: nat) in 65 \<le> n \<and> n \<le> 90)"

definition to_upper :: "char \<Rightarrow> char" where
  "to_upper c = (if is_lower c then char_of ((of_char c :: nat) - 32) else c)"

definition to_lower :: "char \<Rightarrow> char" where
  "to_lower c = (if is_upper c then char_of ((of_char c :: nat) + 32) else c)"

definition py_upper :: "string \<Rightarrow> string" where
  "py_upper s = map to_upper s"

definition py_lower :: "string \<Rightarrow> string" where
  "py_lower s = map to_lower s"

definition py_strip :: "string \<Rightarrow> string" where
  "py_strip s = rev (dropWhile is_space (rev (dropWhile is_space s)))"

definition startswith :: "string \<Rightarrow> string \<Rightarrow> bool" where
  "startswith s p = (take (length p) s = p)"

definition endswith :: "string \<Rightarrow> string \<Rightarrow> bool" where
  "endswith s p = (length p \<le> length s \<and> drop (length s - length p) s = p)"

text \<open>\<open>py_in sub s\<close> is Python's \<open>sub in s\<close> on strings.\<close>

fun py_in :: "string \<Rightarrow> string \<Rightarrow> bool" where
  "py_in sub [] = (sub = [])"
| "py_in sub (c # cs) = (startswith (c # cs) sub \<or> py_in sub cs)"

text \<open>
  \<open>s.replace(old, new)\<close>: every occurrence of \<open>old\<close>, left to right, without
  overlaps. The code only replaces non-empty strings; on an empty \<open>old\<close> the model
  returns \<open>s\<close>.
\<close>

fun py_replace :: "string \<Rightarrow> string \<Rightarrow> string \<Rightarrow> string" where
  "py_replace old new [] = []"
| "py_replace old new (c # cs) =
     (if old \<noteq> [] \<and> startswith (c # cs) old
      then new @ py_replace old new (drop (length old - 1) cs)
      else c # py_replace old new cs)"

text \<open>\<open>s.split(sep)\<close> for a separator of one character; the list is never empty.\<close>

fun py_split :: "char \<Rightarrow> string \<Rightarrow> string list" where
  "py_split sep [] = [[]]"
| "py_split sep (c # cs) =
     (if c = sep then [] # py_split sep cs
      else (case py_split sep cs of w # ws \<Rightarrow> (c # w) # ws | [] \<Rightarrow> [[c]]))"

text \<open>
  \<open>s.title()\<close>: a letter that follows a letter is lowercased, any other letter is
  uppercased; \<open>prev\<close> says whether the previous character was a letter.
\<close>

fun title_from :: "bool \<Rightarrow> string \<Rightarrow> string" where
  "title_from prev [] = []"
| "title_from prev (c # cs) =
     (if is_lower c \<or> is_upper c
      then (if prev then to_lower c else to_upper c) # title_from True cs
      else c # title_from False cs)"

definition py_title :: "string \<Rightarrow> string" where
  "py_title s = title_from False s"

text \<open>\<open>str(n)\<close> for an integer.\<close>

fun string_of_nat :: "nat \<Rightarrow> string" where
  "string_of_nat n =
     (if n < 10 then [char_of (48 + n)]
      else string_of_nat (n div 10) @ [char_of (48 + n mod 10)])"

definition string_of_int :: "int \<Rightarrow> string" where
  "string_of_int i = (if i < 0 then CHR ''-'' # string_of_nat (nat (- i)) else string_of_nat (nat i))"

text \<open>
  An optional text (\<open>None\<close> or a \<open>str\<close>): \<open>filled v\<close> is its truth value and
  \<open>or_empty v\<close> is \<open>v or ""\<close>.
\<close>

definition filled :: "string option \<Rightarrow> bool" where
  "filled v = (case v of Some t \<Rightarrow> t \<noteq> [] | None \<Rightarrow> False)"

definition or_empty :: "string option \<Rightarrow> string" where
  "or_empty v = (case v of Some t \<Rightarrow> t | None \<Rightarrow> [])"

section \<open>Size detection\<close>

definition VALID_SIZE_WORDS :: "string list" where
  "VALID_SIZE_WORDS =
     [''XXXS'', ''XXS'', ''XS'', ''S'', ''M'', ''L'', ''XL'', ''XXL'', ''XXXL'',
      ''3XL'', ''4XL'', ''5XL'',
      ''ONE SIZE'', ''ONESIZE'', ''OS'',
      ''S/M'', ''M/L'', ''L/XL'']"

text \<open>\<open>re.fullmatch(r"\d{2}", t)\<close> and, where it matches, \<open>int(t)\<close>.\<close>

definition two_digits :: "string \<Rightarrow> nat option" where
  "two_digits t =
     (case t of
        [a, b] \<Rightarrow>
          if is_digit a \<and> is_digit b
          then Some (10 * ((of_char a :: nat) - 48) + ((of_char b :: nat) - 48))
          else None
      | _ \<Rightarrow> None)"

definition is_valid_size_token :: "string \<Rightarrow> bool" where
  "is_valid_size_token token =
     (let t = py_upper (py_strip token) in
      if t = [] then False
      else if t \<in> set VALID_SIZE_WORDS then True
      else if py_replace '' '' [] t \<in> set VALID_SIZE_WORDS then True
      else (case two_digits t of
              Some val \<Rightarrow> 20 \<le> val \<and> val \<le> 60
            | None \<Rightarrow> False))"

text \<open>
  The validator is modelled for tokens of ASCII characters: what \<open>strip\<close>, \<open>upper\<close>,
  \<open>\d\<close> and \<open>int\<close> do to other characters is outside the model.

  The size loops of \<open>extract_raw_product_data\<close>. The page queries belong to the browser;
  the model takes what they return: the visible texts of the buttons, the
  \<open>aria-label\<close> of each labelled button, for every radio or button input its four
  attributes (\<open>None\<close> for a missing one), and the texts of the select options. A text is
  stripped before the test, an attribute is tested as it is; \<open>sizes\<close> is the Python set.
\<close>

definition add_size :: "string \<Rightarrow> string set \<Rightarrow> string set" where
  "add_size t sizes = (if is_valid_size_token t then insert (py_upper (py_strip t)) sizes else sizes)"

definition add_text :: "string \<Rightarrow> string set \<Rightarrow> string set" where
  "add_text t sizes = add_size (py_strip t) sizes"

definition add_attr :: "string option \<Rightarrow> string set \<Rightarrow> string set" where
  "add_attr v sizes = (case v of None \<Rightarrow> sizes | Some a \<Rightarrow> if a = [] then sizes else add_size a sizes)"

definition collect_sizes ::
  "string list \<Rightarrow> string option list \<Rightarrow> string option list list \<Rightarrow> string list \<Rightarrow> string list" where
  "collect_sizes buttons labels inputs options =
     (let s1 = fold add_text buttons {};
          s2 = fold add_attr labels s1;
          s3 = fold (\<lambda>attrs s. fold add_attr attrs s) inputs s2;
          s4 = fold add_text options s3
      in sorted_list_of_set s4)"

text \<open>
  The size labels as the specification words them: the lettered sizes run from XXXS up
  to XXXXXL; the rest of the set is the code's.
\<close>

definition spec_size_words :: "string list" where
  "spec_size_words =
     [''XXXS'', ''XXS'', ''XS'', ''S'', ''M'', ''L'', ''XL'', ''XXL'', ''XXXL'', ''XXXXL'', ''XXXXXL'',
      ''3XL'', ''4XL'', ''5XL'',
      ''ONE SIZE'', ''ONESIZE'', ''OS'',
      ''S/M'', ''M/L'', ''L/XL'']"

definition spec_valid_size :: "string \<Rightarrow> bool" where
  "spec_valid_size token =
     (let t = py_upper (py_strip token) in
      t \<in> set spec_size_words \<or> py_replace '' '' [] t \<in> set spec_size_words
      \<or> (case two_digits t of Some val \<Rightarrow> 20 \<le> val \<and> val \<le> 60 | None \<Rightarrow> False))"

section \<open>JSON values\<close>

text \<open>
  What \<open>json.loads\<close> returns. A Python \<open>float\<close> is carried as its \<open>repr\<close> text: the
  code only tests floats for truth and prints them. \<open>None\<close> is \<open>JNull\<close>. A \<open>dict\<close>
  is an association list in insertion order; \<open>json.loads\<close> keeps one entry per key.
\<close>

datatype json =
    JNull
  | JBool bool
  | JInt int
  | JFloat string
  | JStr string
  | JArr "json list"
  | JObj "(string \<times> json) list"

type_synonym pydict = "(string \<times> json) list"

datatype py_error = TypeError | AttributeError | ValueError

text \<open>Python's truth value of a JSON value.\<close>

fun truthy :: "json \<Rightarrow> bool" where
  "truthy JNull = False"
| "truthy (JBool b) = b"
| "truthy (JInt i) = (i \<noteq> 0)"
| "truthy (JFloat r) = (r \<noteq> ''0.0'' \<and> r \<noteq> ''-0.0'')"
| "truthy (JStr s) = (s \<noteq> [])"
| "truthy (JArr xs) = (xs \<noteq> [])"
| "truthy (JObj kvs) = (kvs \<noteq> [])"

text \<open>\<open>d.get(k)\<close> (with \<open>None\<close> for a missing key), \<open>k in d\<close> and \<open>d[k] = v\<close>.\<close>

definition dict_get :: "pydict \<Rightarrow> string \<Rightarrow> json" where
  "dict_get d k = (case map_of d k of Some v \<Rightarrow> v | None \<Rightarrow> JNull)"

definition dict_has :: "pydict \<Rightarrow> string \<Rightarrow> bool" where
  "dict_has d k = (map_of d k \<noteq> None)"

definition dict_set :: "pydict \<Rightarrow> string \<Rightarrow> json \<Rightarrow> pydict" where
  "dict_set d k v = AList.update k v d"

text \<open>
  \<open>str(v)\<close> and \<open>repr(v)\<close>. In the \<open>repr\<close> of a string, Python escapes the backslash,
  the quote it chose, \<open>\n\<close>, \<open>\r\<close>, \<open>\t\<close> and the other control characters of ASCII
  (as \<open>\xNN\<close>).
\<close>

definition hex_digit :: "nat \<Rightarrow> char" where
  "hex_digit n = (if n < 10 then char_of (48 + n) else char_of (87 + n))"

definition escape_char :: "char \<Rightarrow> char \<Rightarrow> string" where
  "escape_char q c =
     (let n = (of_char c :: nat) in
      if c = CHR 0x5C then [CHR 0x5C, CHR 0x5C]
      else if c = q then [CHR 0x5C, q]
      else if n = 10 then [CHR 0x5C, CHR ''n'']
      else if n = 13 then [CHR 0x5C, CHR ''r'']
      else if n = 9 then [CHR 0x5C, CHR ''t'']
      else if n < 32 \<or> n = 127 then [CHR 0x5C, CHR ''x'', hex_digit (n div 16), hex_digit (n mod 16)]
      else [c])"

definition repr_str :: "string \<Rightarrow> string" where
  "repr_str s =
     (let q = (if CHR 0x27 \<in> set s \<and> CHR 0x22 \<notin> set s then CHR 0x22 else CHR 0x27)
      in q # concat (map (escape_char q) s) @ [q])"

fun join :: "string \<Rightarrow> string list \<Rightarrow> string" where
  "join sep [] = []"
| "join sep [x] = x"
| "join sep (x # y # ys) = x @ sep @ join sep (y # ys)"

fun py_repr :: "json \<Rightarrow> string" where
  "py_repr JNull = ''None''"
| "py_repr (JBool b) = (if b then ''True'' else ''False'')"
| "py_repr (JInt i) = string_of_int i"
| "py_repr (JFloat r) = r"
| "py_repr (JStr s) = repr_str s"
| "py_repr (JArr xs) = ''['' @ join '', '' (map py_repr xs) @ '']''"
| "py_repr (JObj kvs) =
     ''{'' @ join '', '' (map (\<lambda>kv. repr_str (fst kv) @ '': '' @ py_repr (snd kv)) kvs) @ ''}''"

definition py_str :: "json \<Rightarrow> string" where
  "py_str v = (case v of JStr s \<Rightarrow> s | _ \<Rightarrow> py_repr v)"

section \<open>Regular expressions\<close>

text \<open>
  The patterns of the code use literals, greedy repetitions of a character class, one
  lazy \<open>.*?\<close> (under \<open>re.S\<close>, so the dot matches every character) and one group. A
  pattern is a list of atoms, matched by backtracking in the order of \<open>re\<close>: a greedy
  repetition tries the longest run first, the lazy one the shortest.
\<close>

datatype cls = Space | NotChar char | Digit | DigitDotComma

fun in_cls :: "cls \<Rightarrow> char \<Rightarrow> bool" where
  "in_cls Space c = is_space c"
| "in_cls (NotChar x) c = (c \<noteq> x)"
| "in_cls Digit c = is_digit c"
| "in_cls DigitDotComma c = (is_digit c \<or> c = CHR ''.'' \<or> c = CHR '','')"

datatype atom =
    Lit string
  | Star cls
  | Plus cls
  | OneOf "string list"
  | LazyAny
  | GroupOpen
  | GroupClose

text \<open>
  \<open>rmatch p s\<close> matches \<open>p\<close> at the start of \<open>s\<close>. Below \<open>GroupOpen\<close> the first
  component of the result is the text of the group; the second is what follows the match.
\<close>

fun atom_weight :: "atom \<Rightarrow> nat" where
  "atom_weight (OneOf ls) = Suc (length ls)"
| "atom_weight a = 1"

function (sequential) rmatch :: "atom list \<Rightarrow> string \<Rightarrow> (string \<times> string) option" where
  "rmatch [] s = Some (s, s)"
| "rmatch (Lit l # as) s = (if startswith s l then rmatch as (drop (length l) s) else None)"
| "rmatch (OneOf [] # as) s = None"
| "rmatch (OneOf (l # ls) # as) s =
     (case (if startswith s l then rmatch as (drop (length l) s) else None) of
        Some r \<Rightarrow> Some r
      | None \<Rightarrow> rmatch (OneOf ls # as) s)"
| "rmatch (Star c # as) [] = rmatch as []"
| "rmatch (Star c # as) (x # xs) =
     (if in_cls c x
      then (case rmatch (Star c # as) xs of Some r \<Rightarrow> Some r | None \<Rightarrow> rmatch as (x # xs))
      else rmatch as (x # xs))"
| "rmatch (Plus c # as) [] = None"
| "rmatch (Plus c # as) (x # xs) = (if in_cls c x then rmatch (Star c # as) xs else None)"
| "rmatch (LazyAny # as) [] = rmatch as []"
| "rmatch (LazyAny # as) (x # xs) =
     (case rmatch as (x # xs) of Some r \<Rightarrow> Some r | None \<Rightarrow> rmatch (LazyAny # as) xs)"
| "rmatch (GroupOpen # as) s =
     (case rmatch as s of Some (c, e) \<Rightarrow> Some (take (length s - length c) s, e) | None \<Rightarrow> None)"
| "rmatch (GroupClose # as) s =
     (case rmatch as s of Some (c, e) \<Rightarrow> Some (s, e) | None \<Rightarrow> None)"
  by pat_completeness auto
termination
  by (relation "measure (\<lambda>(p, s). sum_list (map atom_weight p) + length s)") auto

text \<open>\<open>re.search(p, s)\<close>, giving \<open>m.group(1)\<close>: the leftmost match.\<close>

fun re_search :: "atom list \<Rightarrow> string \<Rightarrow> string option" where
  "re_search p [] = (case rmatch p [] of Some (g, e) \<Rightarrow> Some g | None \<Rightarrow> None)"
| "re_search p (x # xs) =
     (case rmatch p (x # xs) of Some (g, e) \<Rightarrow> Some g | None \<Rightarrow> re_search p xs)"

text \<open>
  \<open>re.findall(p, s)\<close> for a pattern with one group: the groups of the matches, left to
  right, each search starting where the last match ended (one character further after
  an empty match; the pattern of the code matches no empty text).
\<close>

function re_findall :: "atom list \<Rightarrow> string \<Rightarrow> string list" where
  "re_findall p [] = (case rmatch p [] of Some (g, e) \<Rightarrow> [g] | None \<Rightarrow> [])"
| "re_findall p (x # xs) =
     (case rmatch p (x # xs) of
        Some (g, e) \<Rightarrow> g # (if length e \<le> length xs then re_findall p e else re_findall p xs)
      | None \<Rightarrow> re_findall p xs)"
  by pat_completeness auto
termination
  by (relation "measure (\<lambda>(p, s). length s)") auto

section \<open>Brand and price helpers\<close>

text \<open>
  \<open>json.loads\<close> and \<open>urlparse\<close> belong to the standard library. The functions below
  take them as parameters: \<open>loads\<close> gives \<open>None\<close> where \<open>json.loads\<close> raises, and
  \<open>hostname u\<close> is \<open>urlparse(u).hostname\<close>, or the \<open>ValueError\<close> that \<open>urlparse\<close>
  raises on a malformed bracketed host.
\<close>

definition dq :: char where
  "dq = CHR 0x22"

text \<open>\<^verbatim>\<open><script[^>]*type="application/ld\+json"[^>]*>(.*?)</script>\<close> under \<open>re.S\<close>.\<close>

definition LD_JSON :: "atom list" where
  \<open>LD_JSON =
     [Lit ''<script'', Star (NotChar CHR ''>''), Lit ''type="application/ld+json"'',
      Star (NotChar CHR ''>''), Lit ''>'', GroupOpen, LazyAny, GroupClose, Lit ''</script>'']\<close>

text \<open>\<open>json.loads(block)\<close>, then \<open>json.loads(block.strip())\<close>; \<open>None\<close> where both raise.\<close>

definition json_parse :: "(string \<Rightarrow> json option) \<Rightarrow> string \<Rightarrow> json option" where
  "json_parse loads block =
     (case loads block of Some data \<Rightarrow> Some data | None \<Rightarrow> loads (py_strip block))"

text \<open>
  The loops of \<open>extract_brand_from_jsonld\<close>. \<open>Some r\<close> says that the function returns
  \<open>r\<close> here, \<open>None\<close> that the loop goes on.
\<close>

fun brand_of_items :: "json list \<Rightarrow> json option" where
  "brand_of_items [] = None"
| "brand_of_items (item # items) =
     (case item of
        JObj d \<Rightarrow>
          if dict_has d ''brand''
          then (case dict_get d ''brand'' of
                  JObj b \<Rightarrow> Some (dict_get b ''name'')
                | brand \<Rightarrow> Some brand)
          else brand_of_items items
      | _ \<Rightarrow> brand_of_items items)"

definition brand_of_data :: "json \<Rightarrow> json option" where
  "brand_of_data data =
     (case data of
        JObj d \<Rightarrow>
          (let brand = dict_get d ''brand'' in
           if truthy brand
           then (case brand of JObj b \<Rightarrow> Some (dict_get b ''name'') | _ \<Rightarrow> Some brand)
           else None)
      | JArr items \<Rightarrow> brand_of_items items
      | _ \<Rightarrow> None)"

fun brand_of_blocks :: "(string \<Rightarrow> json option) \<Rightarrow> string list \<Rightarrow> json" where
  "brand_of_blocks loads [] = JNull"
| "brand_of_blocks loads (block # blocks) =
     (case json_parse loads block of
        None \<Rightarrow> brand_of_blocks loads blocks
      | Some data \<Rightarrow>
          (case brand_of_data data of
             Some r \<Rightarrow> r
           | None \<Rightarrow> brand_of_blocks loads blocks))"

definition extract_brand_from_jsonld :: "(string \<Rightarrow> json option) \<Rightarrow> string \<Rightarrow> json" where
  "extract_brand_from_jsonld loads html = brand_of_blocks loads (re_findall LD_JSON html)"

text \<open>The domain branch of \<open>detect_brand\<close>, on the host name.\<close>

definition domain_remainder :: "string \<Rightarrow> string" where
  "domain_remainder host =
     (let domain = py_replace ''www.'' [] host;
          first = hd (py_split CHR ''.'' domain)
      in py_replace ''shop'' []
           (py_replace ''co'' []
             (py_replace ''eu'' []
               (py_replace ''us'' []
                 (py_replace ''uk'' [] first)))))"

definition domain_brand :: "string \<Rightarrow> string" where
  "domain_brand host = py_title (py_strip (domain_remainder host))"

text \<open>
  \<open>brand.strip()\<close> raises \<open>AttributeError\<close> on a brand that is not a string.
\<close>

definition detect_brand ::
  "(string \<Rightarrow> json option) \<Rightarrow> (string \<Rightarrow> py_error + string option) \<Rightarrow> string \<Rightarrow> string
     \<Rightarrow> py_error + string" where
  "detect_brand loads hostname url html =
     (let brand = extract_brand_from_jsonld loads html in
      if truthy brand
      then (case brand of JStr s \<Rightarrow> Inr (py_strip s) | _ \<Rightarrow> Inl AttributeError)
      else (case hostname url of
              Inl e \<Rightarrow> Inl e
            | Inr h \<Rightarrow> Inr (domain_brand (or_empty h))))"

text \<open>
  The patterns of \<open>extract_price_from_scripts\<close>, in the order of the list.
  \<open>quoted_field name\<close> is \<^verbatim>\<open>"name"\s*:\s*"([^"]+)"\<close>; the second pattern is
  \<^verbatim>\<open>"price":\s*([0-9]+\.[0-9]+)\<close>, the last one
  \<^verbatim>\<open>"value"\s*:\s*"([<pound><dollar><euro>][0-9\.,]+)"\<close>.
\<close>

definition quoted_field :: "string \<Rightarrow> atom list" where
  "quoted_field name =
     [Lit (dq # name @ [dq]), Star Space, Lit '':'', Star Space, Lit [dq],
      GroupOpen, Plus (NotChar dq), GroupClose, Lit [dq]]"

definition patterns :: "atom list list" where
  "patterns =
     [quoted_field ''price'',
      [Lit (dq # ''price'' @ [dq] @ '':''), Star Space, GroupOpen, Plus Digit, Lit ''.'', Plus Digit, GroupClose],
      quoted_field ''nowPrice'',
      quoted_field ''salePrice'',
      quoted_field ''unitPrice'',
      quoted_field ''currentPrice'',
      quoted_field ''regularPrice'',
      [Lit (dq # ''value'' @ [dq]), Star Space, Lit '':'', Star Space, Lit [dq],
       GroupOpen, OneOf [pound, dollar, euro], Plus DigitDotComma, GroupClose, Lit [dq]]]"

fun first_match :: "atom list list \<Rightarrow> string \<Rightarrow> string option" where
  "first_match [] html = None"
| "first_match (p # ps) html =
     (case re_search p html of Some g \<Rightarrow> Some g | None \<Rightarrow> first_match ps html)"

definition read_price :: "json \<Rightarrow> string option" where
  "read_price obj =
     (case obj of
        JObj d \<Rightarrow>
          (case dict_get d ''offers'' of
             JObj offers \<Rightarrow>
               if dict_has offers ''price'' then Some (py_str (dict_get offers ''price'')) else None
           | _ \<Rightarrow> None)
      | _ \<Rightarrow> None)"

fun price_of_items :: "json list \<Rightarrow> string option" where
  "price_of_items [] = None"
| "price_of_items (item # items) =
     (case read_price item of
        Some price \<Rightarrow> if price \<noteq> [] then Some price else price_of_items items
      | None \<Rightarrow> price_of_items items)"

definition price_of_data :: "json \<Rightarrow> string option" where
  "price_of_data data =
     (case data of
        JObj d \<Rightarrow>
          (case read_price data of
             Some price \<Rightarrow> if price \<noteq> [] then Some price else None
           | None \<Rightarrow> None)
      | JArr items \<Rightarrow> price_of_items items
      | _ \<Rightarrow> None)"

fun price_of_blocks :: "(string \<Rightarrow> json option) \<Rightarrow> string list \<Rightarrow> string option" where
  "price_of_blocks loads [] = None"
| "price_of_blocks loads (block # blocks) =
     (case json_parse loads block of
        None \<Rightarrow> price_of_blocks loads blocks
      | Some data \<Rightarrow>
          (case price_of_data data of
             Some price \<Rightarrow> Some price
           | None \<Rightarrow> price_of_blocks loads blocks))"

definition extract_price_from_scripts :: "(string \<Rightarrow> json option) \<Rightarrow> string \<Rightarrow> string option" where
  "extract_price_from_scripts loads html =
     (case first_match patterns html of
        Some g \<Rightarrow> Some g
      | None \<Rightarrow> price_of_blocks loads (re_findall LD_JSON html))"

text \<open>
  The structured-data fallback as the specification words it: \<open>offers\<close> may be an
  object or an array of objects, and the first price found is returned.
\<close>

fun spec_offers_price :: "json list \<Rightarrow> string option" where
  "spec_offers_price [] = None"
| "spec_offers_price (offer # offers) =
     (case offer of
        JObj d \<Rightarrow>
          if dict_has d ''price'' then Some (py_str (dict_get d ''price''))
          else spec_offers_price offers
      | _ \<Rightarrow> spec_offers_price offers)"

definition spec_read_price :: "json \<Rightarrow> string option" where
  "spec_read_price obj =
     (case obj of
        JObj d \<Rightarrow>
          (case dict_get d ''offers'' of
             JObj offers \<Rightarrow> spec_offers_price [JObj offers]
           | JArr offers \<Rightarrow> spec_offers_price offers
           | _ \<Rightarrow> None)
      | _ \<Rightarrow> None)"

fun spec_price_of_items :: "json list \<Rightarrow> string option" where
  "spec_price_of_items [] = None"
| "spec_price_of_items (item # items) =
     (case spec_read_price item of
        Some price \<Rightarrow> Some price
      | None \<Rightarrow> spec_price_of_items items)"

fun spec_price_of_blocks :: "(string \<Rightarrow> json option) \<Rightarrow> string list \<Rightarrow> string option" where
  "spec_price_of_blocks loads [] = None"
| "spec_price_of_blocks loads (block # blocks) =
     (case json_parse loads block of
        None \<Rightarrow> spec_price_of_blocks loads blocks
      | Some data \<Rightarrow>
          (case (case data of JArr items \<Rightarrow> spec_price_of_items items | _ \<Rightarrow> spec_read_price data) of
             Some price \<Rightarrow> Some price
           | None \<Rightarrow> spec_price_of_blocks loads blocks))"

definition spec_extract_price :: "(string \<Rightarrow> json option) \<Rightarrow> string \<Rightarrow> string option" where
  "spec_extract_price loads html =
     (case first_match patterns html of
        Some g \<Rightarrow> Some g
      | None \<Rightarrow> spec_price_of_blocks loads (re_findall LD_JSON html))"

section \<open>Image extractor\<close>

definition IMAGE_EXTS :: "string list" where
  "IMAGE_EXTS = [''.jpg'', ''.jpeg'', ''.png'', ''.webp'', ''.avif'', ''.gif'']"

definition IMAGE_BLOCKLIST :: "string list" where
  "IMAGE_BLOCKLIST =
     [''visa'', ''mastercard'', ''maestro'', ''amex'', ''americanexpress'',
      ''paypal'', ''klarna'', ''afterpay'', ''clearpay'', ''trustpilot'',
      ''applepay'', ''googlepay'', ''payment'', ''secure'',
      ''facebook'', ''instagram'', ''youtube'', ''tiktok'', ''twitter'', ''x-logo'',
      ''logo'', ''sprite'', ''icon'', ''favicon'', ''placeholder'', ''noimage'',
      ''search'', ''menu'', ''hamburger'', ''cart'', ''basket'', ''bag'', ''close'',
      ''arrow'', ''chevron'', ''caret'', ''scroll'', ''slider'',
      ''banner'', ''promo'', ''offer'', ''ads'', ''advert'',
      ''footer'', ''header'',
      ''flag'', ''country-'']"

definition PRODUCT_KEYWORDS :: "string list" where
  "PRODUCT_KEYWORDS =
     [''product'', ''pdp'', ''gallery'', ''image'', ''main'', ''hero'',
      ''shoe'', ''trainer'', ''sneaker'', ''boot'',
      ''jacket'', ''coat'', ''hoodie'', ''tee'', ''t-shirt'', ''shirt'',
      ''dress'', ''skirt'', ''trouser'', ''shorts'', ''jeans'', ''pant'',
      ''bag'', ''cap'', ''hat'', ''backpack'']"

definition NON_IMAGE_EXTS :: "string list" where
  "NON_IMAGE_EXTS = [''.css'', ''.js'', ''.json'', ''.svg'']"

text \<open>
  One record of what the in-page script returns for an element. The script runs in the
  browser; the model takes its result. Widths, heights and offsets are JavaScript
  numbers: doubles, each of them a rational, which Python compares exactly. The product
  \<open>w * h\<close> is rounded, so the multiplication of Python is a parameter, \<open>mul\<close>, of the
  functions below.
\<close>

record img_info =
  src :: string
  width :: rat
  height :: rat
  alt :: string
  className :: string
  inPicture :: bool
  top_offset :: rat

text \<open>\<open>any(k in s for k in ks)\<close>.\<close>

definition any_in :: "string list \<Rightarrow> string \<Rightarrow> bool" where
  "any_in ks s = list_ex (\<lambda>k. py_in k s) ks"

text \<open>\<open>re.findall(r"[a-z0-9]+", s)\<close>: the maximal runs of lowercase letters and digits.\<close>

fun tokens_from :: "string \<Rightarrow> string \<Rightarrow> string list" where
  "tokens_from cur [] = (if cur = [] then [] else [cur])"
| "tokens_from cur (c # cs) =
     (if is_lower c \<or> is_digit c then tokens_from (cur @ [c]) cs
      else (if cur = [] then [] else [cur]) @ tokens_from [] cs)"

definition tokens :: "string \<Rightarrow> string list" where
  "tokens s = tokens_from [] s"

definition slug_tokens :: "string \<Rightarrow> string set" where
  "slug_tokens url = set (tokens (py_lower (last (py_split CHR ''/'' (hd (py_split CHR ''?'' url))))))"

definition title_tokens :: "string \<Rightarrow> string set" where
  "title_tokens title = set (tokens (py_lower title))"

type_synonym candidate = "int \<times> rat \<times> string"

definition score_of :: "candidate \<Rightarrow> int" where
  "score_of c = fst c"

definition area_of :: "candidate \<Rightarrow> rat" where
  "area_of c = fst (snd c)"

definition src_of :: "candidate \<Rightarrow> string" where
  "src_of c = snd (snd c)"

text \<open>The scoring block of the loop, for the lowered source \<open>src_l\<close>.\<close>

definition image_score ::
  "(rat \<Rightarrow> rat \<Rightarrow> rat) \<Rightarrow> string set \<Rightarrow> string set \<Rightarrow> img_info \<Rightarrow> string \<Rightarrow> int" where
  "image_score mul slug ttl info src_l =
     (let area = mul (width info) (height info);
          alt_l = py_lower (alt info);
          cls_l = py_lower (className info);
          s1 = (if area \<ge> 800 * 800 then 8
                else if area \<ge> 600 * 600 then 6
                else if area \<ge> 400 * 400 then 4
                else if area \<ge> 200 * 200 then 2
                else if any_in PRODUCT_KEYWORDS alt_l \<or> any_in PRODUCT_KEYWORDS cls_l then 1
                else 0);
          s2 = (if inPicture info then s1 + 3 else s1);
          s3 = (if any_in PRODUCT_KEYWORDS alt_l then s2 + 2 else s2);
          s4 = (if any_in PRODUCT_KEYWORDS cls_l then s3 + 2 else s3);
          s5 = (if - 200 \<le> top_offset info \<and> top_offset info \<le> 1600 then s4 + 1 else s4);
          name_tokens = set (tokens src_l);
          overlap_slug = card (name_tokens \<inter> slug);
          overlap_title = card (name_tokens \<inter> ttl);
          s6 = (if overlap_slug \<ge> 2 then s5 + 2 else s5);
          s7 = (if overlap_title \<ge> 1 then s6 + 1 else s6)
      in s7)"

text \<open>
  The tests of the loop that drop an element: no source, not \<open>http\<close> after the
  protocol-relative form is completed, a blocklisted substring, a source without an
  image extension that names a stylesheet, script, JSON or SVG file.
\<close>

definition normalise_src :: "string \<Rightarrow> string" where
  "normalise_src s = (if startswith s ''//'' then ''https:'' @ s else s)"

definition not_image :: "string \<Rightarrow> bool" where
  "not_image src_l =
     (\<not> list_ex (endswith src_l) IMAGE_EXTS \<and> \<not> any_in IMAGE_EXTS src_l
      \<and> any_in NON_IMAGE_EXTS src_l)"

definition dropped :: "string \<Rightarrow> bool" where
  "dropped s =
     (s = [] \<or> \<not> startswith (normalise_src s) ''http''
      \<or> any_in IMAGE_BLOCKLIST (py_lower (normalise_src s))
      \<or> not_image (py_lower (normalise_src s)))"

fun image_loop ::
  "(rat \<Rightarrow> rat \<Rightarrow> rat) \<Rightarrow> string set \<Rightarrow> string set \<Rightarrow> img_info list \<Rightarrow> string set \<Rightarrow> candidate list \<Rightarrow> candidate list" where
  "image_loop mul slug ttl [] seen candidates = candidates"
| "image_loop mul slug ttl (info # infos) seen candidates =
     (if dropped (src info) then image_loop mul slug ttl infos seen candidates
      else
        (let s = normalise_src (src info) in
         if s \<in> seen then image_loop mul slug ttl infos seen candidates
         else image_loop mul slug ttl infos (insert s seen)
                (candidates @ [(image_score mul slug ttl info (py_lower s), mul (width info) (height info), s)])))"

text \<open>
  \<open>candidates.sort(key=..., reverse=True)\<close>: Python reverses the list, sorts it in a
  stable way and reverses it again, so equal keys keep their order.
\<close>

definition sort_desc :: "candidate list \<Rightarrow> candidate list" where
  "sort_desc cs = rev (sort_key (\<lambda>c. (score_of c, area_of c)) (rev cs))"

definition ranked_candidates ::
  "(rat \<Rightarrow> rat \<Rightarrow> rat) \<Rightarrow> img_info list \<Rightarrow> string \<Rightarrow> string \<Rightarrow> candidate list" where
  "ranked_candidates mul infos url title =
     sort_desc (image_loop mul (slug_tokens url) (title_tokens title) infos {} [])"

definition extract_images_from_page ::
  "(rat \<Rightarrow> rat \<Rightarrow> rat) \<Rightarrow> img_info list \<Rightarrow> string \<Rightarrow> string \<Rightarrow> string list" where
  "extract_images_from_page mul infos url title =
     (let candidates = ranked_candidates mul infos url title in
      if candidates = [] then []
      else
        (let positive = map src_of (filter (\<lambda>c. score_of c > 0) candidates) in
         if positive \<noteq> [] then take 10 positive
         else take 5 (map src_of candidates)))"

section \<open>Cleaner\<close>

definition ALLOWED_STYLE_TAGS :: "string list" where
  "ALLOWED_STYLE_TAGS =
     [''#streetwear'', ''#athleisure'', ''#vintageStreet'', ''#techwear'', ''#minimalist'',
      ''#loudGraphic'', ''#hypebeast'', ''#y2k'', ''#skater'']"

text \<open>The dictionary that \<open>extract_raw_product_data\<close> returns.\<close>

record raw_product =
  raw_title :: "string option"
  raw_brand :: string
  raw_price :: "string option"
  raw_description :: "string option"
  raw_images :: "string list"
  raw_sizes :: "string list"
  url :: string

text \<open>
  The text of the model's answer without its code fences:
  \<open>text.strip().replace(fence + "json", "").replace(fence, "").strip()\<close>, where
  \<open>fence\<close> is three backquotes.
\<close>

definition fence :: string where
  "fence = [CHR 0x60, CHR 0x60, CHR 0x60]"

definition strip_fences :: "string \<Rightarrow> string" where
  "strip_fences t = py_strip (py_replace fence [] (py_replace (fence @ ''json'') [] (py_strip t)))"

text \<open>The block that enforces the scraped values.\<close>

definition enforce_scraped :: "raw_product \<Rightarrow> pydict \<Rightarrow> pydict" where
  "enforce_scraped raw cleaned =
     (let c1 = (if filled (raw_title raw)
                then dict_set cleaned ''product_name'' (JStr (or_empty (raw_title raw))) else cleaned);
          c2 = (if raw_brand raw \<noteq> [] then dict_set c1 ''brand'' (JStr (raw_brand raw)) else c1);
          c3 = (if filled (raw_price raw)
                then dict_set c2 ''price'' (JStr (or_empty (raw_price raw))) else c2);
          c4 = (if url raw \<noteq> [] then dict_set c3 ''product_url'' (JStr (url raw)) else c3);
          c5 = (if raw_images raw \<noteq> []
                then dict_set c4 ''image_url'' (JStr (hd (raw_images raw))) else c4);
          c6 = (if raw_sizes raw \<noteq> []
                then dict_set c5 ''sizes_available'' (JArr (map JStr (raw_sizes raw))) else c5)
      in c6)"

text \<open>Whether one of these assignments is made.\<close>

definition any_scraped :: "raw_product \<Rightarrow> bool" where
  "any_scraped raw =
     (filled (raw_title raw) \<or> raw_brand raw \<noteq> [] \<or> filled (raw_price raw) \<or> url raw \<noteq> []
      \<or> raw_images raw \<noteq> [] \<or> raw_sizes raw \<noteq> [])"

text \<open>The currency block: the value it stores when \<open>cleaned.get("currency")\<close> is false.\<close>

definition EU_TLDS :: "string list" where
  "EU_TLDS = [''.de'', ''.fr'', ''.es'', ''.it'']"

definition infer_currency ::
  "(string \<Rightarrow> py_error + string option) \<Rightarrow> raw_product \<Rightarrow> py_error + string" where
  "infer_currency hostname raw =
     (let price_str = or_empty (raw_price raw) in
      if py_in euro price_str then Inr ''EUR''
      else if py_in dollar price_str then Inr ''USD''
      else if py_in pound price_str then Inr ''GBP''
      else (case hostname (url raw) of
              Inl e \<Rightarrow> Inl e
            | Inr h \<Rightarrow>
                (let host = or_empty h in
                 if py_in ''.co.uk'' host \<or> endswith host ''.uk'' then Inr ''GBP''
                 else if list_ex (\<lambda>tld. py_in tld host) EU_TLDS then Inr ''EUR''
                 else Inr ''GBP'')))"

definition fill_currency ::
  "(string \<Rightarrow> py_error + string option) \<Rightarrow> raw_product \<Rightarrow> pydict \<Rightarrow> py_error + pydict" where
  "fill_currency hostname raw cleaned =
     (if \<not> truthy (dict_get cleaned ''currency'')
      then (case infer_currency hostname raw of
              Inl e \<Rightarrow> Inl e
            | Inr cur \<Rightarrow> Inr (dict_set cleaned ''currency'' (JStr cur)))
      else Inr cleaned)"

text \<open>The style tag filter: the inner loop over the allowed tags, then the loop over the tags.\<close>

fun add_allowed :: "string \<Rightarrow> string list \<Rightarrow> string list \<Rightarrow> string list" where
  "add_allowed t [] filtered = filtered"
| "add_allowed t (allowed # rest) filtered =
     add_allowed t rest
       (if py_lower t = py_lower allowed
        then (if allowed \<notin> set filtered then filtered @ [allowed] else filtered)
        else filtered)"

fun filter_tags :: "json list \<Rightarrow> string list \<Rightarrow> string list" where
  "filter_tags [] filtered = filtered"
| "filter_tags (t # ts) filtered =
     (case t of
        JStr s \<Rightarrow> filter_tags ts (add_allowed (py_strip s) ALLOWED_STYLE_TAGS filtered)
      | _ \<Rightarrow> filter_tags ts filtered)"

definition clean_style_tags :: "pydict \<Rightarrow> pydict" where
  "clean_style_tags cleaned =
     (let v = dict_get cleaned ''style_tags'';
          tags = (if truthy v then v else JArr [])
      in case tags of
           JArr ts \<Rightarrow> dict_set cleaned ''style_tags'' (JArr (map JStr (filter_tags ts [])))
         | _ \<Rightarrow> cleaned)"

text \<open>
  \<open>clean_product_data\<close>, from the text of the model's answer on. The call of the model
  is outside the code; \<open>answer\<close> is \<open>resp.text\<close>. \<open>Inr None\<close> is the \<open>None\<close> returned
  when the answer does not parse. An answer that parses to something else than an
  object raises at the first assignment (\<open>TypeError\<close>) or, when nothing was scraped, at
  \<open>cleaned.get\<close> (\<open>AttributeError\<close>).
\<close>

definition clean_product_data ::
  "(string \<Rightarrow> json option) \<Rightarrow> (string \<Rightarrow> py_error + string option) \<Rightarrow> raw_product \<Rightarrow> string
     \<Rightarrow> py_error + pydict option" where
  "clean_product_data loads hostname raw answer =
     (case loads (strip_fences answer) of
        None \<Rightarrow> Inr None
      | Some (JObj cleaned) \<Rightarrow>
          (case fill_currency hostname raw (enforce_scraped raw cleaned) of
             Inl e \<Rightarrow> Inl e
           | Inr c \<Rightarrow> Inr (Some (clean_style_tags c)))
      | Some _ \<Rightarrow> Inl (if any_scraped raw then TypeError else AttributeError))"

section \<open>Server\<close>

definition VALID_CATEGORY :: "string list" where
  "VALID_CATEGORY = [''top'', ''bottom'', ''outerwear'', ''footwear'', ''full_body'', ''accessory'']"

definition VALID_GENDER :: "string list" where
  "VALID_GENDER = [''masculine'', ''feminine'', ''unisex'']"

text \<open>
  \<open>v not in S\<close> for a set \<open>S\<close> of strings: a list or a dictionary cannot be hashed
  (\<open>TypeError\<close>); any other value is in \<open>S\<close> only when it is one of its strings.
\<close>

definition not_in_set :: "json \<Rightarrow> string list \<Rightarrow> py_error + bool" where
  "not_in_set v S =
     (case v of
        JArr xs \<Rightarrow> Inl TypeError
      | JObj kvs \<Rightarrow> Inl TypeError
      | JStr s \<Rightarrow> Inr (s \<notin> set S)
      | _ \<Rightarrow> Inr True)"

text \<open>
  \<open>scrape\<close>. \<open>data\<close> is what \<open>scrape_product\<close> returned (\<open>None\<close> when the answer did
  not parse: the first assignment then raises), \<open>now\<close> the ISO text of the clock and
  \<open>host\<close> the result of \<open>urlparse(req.product_url).hostname\<close>.
\<close>

definition scrape :: "string \<Rightarrow> py_error + string option \<Rightarrow> pydict option \<Rightarrow> py_error + pydict" where
  "scrape now host data =
     (case data of
        None \<Rightarrow> Inl TypeError
      | Some d \<Rightarrow>
          (let d1 = dict_set d ''scraped_at'' (JStr now) in
           case host of
             Inl e \<Rightarrow> Inl e
           | Inr h \<Rightarrow>
               (let d2 = dict_set d1 ''source_domain'' (JStr (or_empty h)) in
                case not_in_set (dict_get d2 ''category'') VALID_CATEGORY of
                  Inl e \<Rightarrow> Inl e
                | Inr b1 \<Rightarrow>
                    (let d3 = (if b1 then dict_set d2 ''category'' JNull else d2) in
                     case not_in_set (dict_get d3 ''gender_target'') VALID_GENDER of
                       Inl e \<Rightarrow> Inl e
                     | Inr b2 \<Rightarrow>
                         Inr (if b2 then dict_set d3 ''gender_target'' JNull else d3)))))"

text \<open>
  What the standard library returns on the texts of the examples below: a table of
  \<open>json.loads\<close> results is used through \<open>map_of\<close>, a table of host names through
  \<open>hostname_table\<close>.
\<close>

definition hostname_table :: "(string \<times> string) list \<Rightarrow> string \<Rightarrow> py_error + string option" where
  "hostname_table tbl u = Inr (map_of tbl u)"

section \<open>The specification's wording and auxiliary notions\<close>

text \<open>
  The style tags as the specification words them: a list of strings that match the
  allowed vocabulary without regard to case, no two of them equal without regard to
  case, at most four.
\<close>

definition spec_style_tags :: "json \<Rightarrow> bool" where
  "spec_style_tags v =
     (case v of
        JArr ts \<Rightarrow>
          list_all (\<lambda>t. case t of JStr s \<Rightarrow> py_lower s \<in> set (map py_lower ALLOWED_STYLE_TAGS)
                         | _ \<Rightarrow> False) ts
          \<and> distinct (map (\<lambda>t. py_lower (py_str t)) ts)
          \<and> length ts \<le> 4
      | _ \<Rightarrow> False)"

text \<open>
  Deduplication that keeps the first occurrence of every value, and the allowed tag
  that an entry of the answer matches (none for an entry that is not a string).
\<close>

fun keep_first :: "'a list \<Rightarrow> 'a list \<Rightarrow> 'a list" where
  "keep_first seen [] = []"
| "keep_first seen (x # xs) =
     (if x \<in> set seen then keep_first seen xs else x # keep_first (x # seen) xs)"

definition allowed_match :: "json \<Rightarrow> string option" where
  "allowed_match t =
     (case t of
        JStr s \<Rightarrow> List.find (\<lambda>allowed. py_lower (py_strip s) = py_lower allowed) ALLOWED_STYLE_TAGS
      | _ \<Rightarrow> None)"

text \<open>The first result of \<open>f\<close> along a list.\<close>

fun first_some :: "('a \<Rightarrow> 'b option) \<Rightarrow> 'a list \<Rightarrow> 'b option" where
  "first_some f [] = None"
| "first_some f (x # xs) = (case f x of Some y \<Rightarrow> Some y | None \<Rightarrow> first_some f xs)"

text \<open>
  The result of one turn of the price loops: for an item, its price when it has one
  that is not empty; for a block, the price of its data when it parses.
\<close>

definition nonempty_price :: "json \<Rightarrow> string option" where
  "nonempty_price item = (case read_price item of Some price \<Rightarrow> if price \<noteq> [] then Some price else None | None \<Rightarrow> None)"

definition block_price :: "(string \<Rightarrow> json option) \<Rightarrow> string \<Rightarrow> string option" where
  "block_price loads block = (case json_parse loads block of None \<Rightarrow> None | Some data \<Rightarrow> price_of_data data)"

text \<open>
  The order of the ranking, as Python compares the keys \<open>(score, area)\<close>: a higher
  score first, and among equal scores a larger or equal area first.
\<close>

definition ranks_before :: "candidate \<Rightarrow> candidate \<Rightarrow> bool" where
  "ranks_before a b =
     (score_of b < score_of a \<or> (score_of b = score_of a \<and> area_of b \<le> area_of a))"

text \<open>A candidate that the loop may hold: its source passed the tests, its score is not negative.\<close>

definition kept :: "string \<Rightarrow> bool" where
  "kept s = (startswith s ''http'' \<and> \<not> any_in IMAGE_BLOCKLIST (py_lower s))"

text \<open>
  An absolute URL as the specification words it: one that has the scheme \<open>http\<close> or
  \<open>https\<close>.
\<close>

definition spec_absolute :: "string \<Rightarrow> bool" where
  "spec_absolute s = (startswith s ''http://'' \<or> startswith s ''https://'')"

text \<open>
  A text of ASCII characters: on these the string functions of the model are those of
  Python.
\<close>

definition ascii_text :: "string \<Rightarrow> bool" where
  "ascii_text s = list_all (\<lambda>c. (of_char c :: nat) < 128) s"

text \<open>The values that Python can hash: every JSON value but a list or a dictionary.\<close>

definition hashable :: "json \<Rightarrow> bool" where
  "hashable v = (case v of JArr xs \<Rightarrow> False | JObj kvs \<Rightarrow> False | _ \<Rightarrow> True)"

section \<open>Examples\<close>

text \<open>The inputs of the examples that the theorems below are run on.\<close>

definition example_raw :: raw_product where
  "example_raw =
     \<lparr>raw_title = Some ''Pocket Tee'', raw_brand = ''Acme'', raw_price = Some ''$10.00'',
      raw_description = Some ''Soft cotton tee.'',
      raw_images = [''https://acme.com/img/pocket-tee-front.jpg'', ''https://acme.com/img/pocket-tee-back.jpg''],
      raw_sizes = [''M'', ''S''], url = ''https://acme.com/p/pocket-tee''\<rparr>"

definition example_text :: string where
  \<open>example_text =
     ''{"product_name": "Tee", "price": "99", "description": "A great tee.", "category": "top", "style_tags": ["#Y2K", " #skater ", "#y2k", "#nope"]}''\<close>

definition example_object :: pydict where
  "example_object =
     [(''product_name'', JStr ''Tee''), (''price'', JStr ''99''), (''description'', JStr ''A great tee.''),
      (''category'', JStr ''top''),
      (''style_tags'', JArr [JStr ''#Y2K'', JStr '' #skater '', JStr ''#y2k'', JStr ''#nope''])]"

definition five_tags_text :: string where
  \<open>five_tags_text =
     ''{"style_tags": ["#streetwear", "#athleisure", "#techwear", "#minimalist", "#y2k"]}''\<close>

definition five_tags_object :: pydict where
  "five_tags_object =
     [(''style_tags'', JArr [JStr ''#streetwear'', JStr ''#athleisure'', JStr ''#techwear'',
                             JStr ''#minimalist'', JStr ''#y2k''])]"

definition example_loads :: "string \<Rightarrow> json option" where
  "example_loads = map_of [(example_text, JObj example_object), (five_tags_text, JObj five_tags_object)]"

definition example_output :: pydict where
  "example_output =
     [(''product_name'', JStr ''Pocket Tee''), (''price'', JStr ''$10.00''), (''description'', JStr ''A great tee.''),
      (''category'', JStr ''top''), (''style_tags'', JArr [JStr ''#y2k'', JStr ''#skater'']),
      (''brand'', JStr ''Acme''), (''product_url'', JStr ''https://acme.com/p/pocket-tee''),
      (''image_url'', JStr ''https://acme.com/img/pocket-tee-front.jpg''),
      (''sizes_available'', JArr [JStr ''M'', JStr ''S'']), (''currency'', JStr ''USD'')]"

definition example_tags :: "json list" where
  "example_tags = [JStr ''#Y2K'', JStr '' #skater '', JStr ''#y2k'', JStr ''#nope'']"

definition pound_raw :: raw_product where
  "pound_raw =
     \<lparr>raw_title = None, raw_brand = ''Example'', raw_price = Some (pound @ ''45.00''),
      raw_description = None, raw_images = [], raw_sizes = [], url = ''https://example.co.uk/p/1''\<rparr>"

definition plain_raw :: "string \<Rightarrow> raw_product" where
  "plain_raw u =
     \<lparr>raw_title = None, raw_brand = ''Example'', raw_price = Some ''45.00'',
      raw_description = None, raw_images = [], raw_sizes = [], url = u\<rparr>"

definition example_hosts :: "string \<Rightarrow> py_error + string option" where
  "example_hosts =
     hostname_table [(''https://example.co.uk/p/1'', ''example.co.uk''),
                     (''https://shop.example.de/p/1'', ''shop.example.de''),
                     (''https://www.dell.com/p/1'', ''www.dell.com'')]"

definition empty_loads :: "string \<Rightarrow> json option" where
  "empty_loads = map_of [(''{}'', JObj [])]"

definition guard_input :: pydict where
  "guard_input = [(''product_name'', JStr ''Pocket Tee''), (''category'', JStr ''shoes''), (''gender_target'', JStr ''unisex'')]"

definition plain_html :: string where
  \<open>plain_html = ''<html><body><h1>Item</h1></body></html>''\<close>

definition brand_hosts :: "string \<Rightarrow> py_error + string option" where
  "brand_hosts =
     hostname_table [(''https://shop.example.com/p/1'', ''shop.example.com''),
                     (''https://www.size.co.uk/product/beige-new-balance-204l/19708453/'', ''www.size.co.uk'')]"

definition brand_list_html :: string where
  \<open>brand_list_html = ''<script type="application/ld+json">{"brand": ["Nike"]}</script>''\<close>

definition brand_list_loads :: "string \<Rightarrow> json option" where
  \<open>brand_list_loads = map_of [(''{"brand": ["Nike"]}'', JObj [(''brand'', JArr [JStr ''Nike''])])]\<close>

definition offers_array_html :: string where
  \<open>offers_array_html = ''<script type="application/ld+json">{"offers": [{"price": 45}]}</script>''\<close>

definition offers_loads :: "string \<Rightarrow> json option" where
  \<open>offers_loads =
     map_of [(''{"offers": [{"price": 45}]}'', JObj [(''offers'', JArr [JObj [(''price'', JInt 45)]])]),
             (''{"offers": {"price": 45}}'', JObj [(''offers'', JObj [(''price'', JInt 45)])]),
             (''[{"name": "x"}, {"offers": {"price": 30}}]'',
              JArr [JObj [(''name'', JStr ''x'')], JObj [(''offers'', JObj [(''price'', JInt 30)])]])]\<close>

definition offers_object_html :: string where
  \<open>offers_object_html = ''<script type="application/ld+json">{"offers": {"price": 45}}</script>''\<close>

definition inline_html :: string where
  \<open>inline_html = ''<script>var p = {"salePrice": "9.50", "price": "10.00"};</script>''\<close>

definition example_infos :: "img_info list" where
  "example_infos =
     [\<lparr>src = ''https://cdn.acme.com/a/thumb1.jpg'', width = 150, height = 150, alt = [], className = [],
       inPicture = False, top_offset = 3000\<rparr>,
      \<lparr>src = ''//cdn.acme.com/a/pocket-tee-front.jpg'', width = 900, height = 900, alt = ''Product hero'',
       className = ''gallery__img'', inPicture = True, top_offset = 100\<rparr>,
      \<lparr>src = ''https://cdn.acme.com/a/paypal.png'', width = 900, height = 900, alt = [], className = [],
       inPicture = False, top_offset = 100\<rparr>,
      \<lparr>src = ''https://cdn.acme.com/a/pocket-tee-front.jpg'', width = 300, height = 300, alt = [], className = [],
       inPicture = False, top_offset = 100\<rparr>]"

definition relative_infos :: "img_info list" where
  "relative_infos =
     [\<lparr>src = ''httpdocs/img/hero.jpg'', width = 900, height = 900, alt = ''Product hero'', className = [],
       inPicture = False, top_offset = 100\<rparr>]"

definition list_category_text :: string where
  \<open>list_category_text = ''{"category": ["top"], "gender_target": "unisex"}''\<close>

definition list_category_loads :: "string \<Rightarrow> json option" where
  "list_category_loads =
     map_of [(list_category_text,
              JObj [(''category'', JArr [JStr ''top'']), (''gender_target'', JStr ''unisex'')])]"

section \<open>Properties of the size validator\<close>

declare string_of_nat.simps [simp del]

lemma string_of_nat_two:
  assumes "10 \<le> n" "n < 100"
  shows "string_of_nat n = [char_of (48 + n div 10), char_of (48 + n mod 10)]"
proof -
  from assms have d: "n div 10 < 10" by simp
  have "string_of_nat (n div 10) = [char_of (48 + n div 10)]"
    using d by (simp add: string_of_nat.simps[of "n div 10"])
  with assms show ?thesis by (simp add: string_of_nat.simps[of n])
qed

lemma two_digits_string_of_nat:
  "10 \<le> n \<Longrightarrow> n < 100 \<Longrightarrow> two_digits (string_of_nat n) = Some n"
  by (simp add: string_of_nat_two two_digits_def is_digit_def Let_def) linarith

lemma string_of_nat_two_digits:
  assumes "two_digits t = Some n" "10 \<le> n"
  shows "string_of_nat n = t"
proof -
  from assms(1) obtain a b where t: "t = [a, b]" and da: "is_digit a" and db: "is_digit b"
    and n: "n = 10 * ((of_char a :: nat) - 48) + ((of_char b :: nat) - 48)"
    by (auto simp: two_digits_def split: list.splits if_splits)
  define x where "x = (of_char a :: nat) - 48"
  define y where "y = (of_char b :: nat) - 48"
  have xa: "of_char a = 48 + x" and x9: "x \<le> 9"
    using da by (auto simp: x_def is_digit_def Let_def)
  have yb: "of_char b = 48 + y" and y9: "y \<le> 9"
    using db by (auto simp: y_def is_digit_def Let_def)
  have nxy: "n = 10 * x + y" using n by (simp add: x_def y_def)
  have "n < 100" using nxy x9 y9 by simp
  moreover have "n div 10 = x" "n mod 10 = y" using nxy y9 by simp_all
  moreover have "char_of (48 + x) = a" "char_of (48 + y) = b"
    using xa[symmetric] yb[symmetric] by simp_all
  ultimately show ?thesis using assms(2) t by (simp add: string_of_nat_two)
qed

lemma two_digits_range:
  "(\<exists>n. two_digits t = Some n \<and> 20 \<le> n \<and> n \<le> 60) \<longleftrightarrow> t \<in> set (map string_of_nat [20..<61])"
proof
  assume "\<exists>n. two_digits t = Some n \<and> 20 \<le> n \<and> n \<le> 60"
  then obtain n where n: "two_digits t = Some n" "20 \<le> n" "n \<le> 60" by blast
  then have "string_of_nat n = t" by (intro string_of_nat_two_digits) simp_all
  moreover have "n \<in> set [20..<61]"
    using n by (simp only: set_upt atLeastLessThan_iff) simp
  ultimately show "t \<in> set (map string_of_nat [20..<61])" by (metis image_eqI set_map)
next
  assume "t \<in> set (map string_of_nat [20..<61])"
  then have "t \<in> string_of_nat ` {20..<61}" by (simp only: set_map set_upt)
  then obtain n where n: "t = string_of_nat n" "20 \<le> n" "n < 61"
    by (auto simp only: image_iff atLeastLessThan_iff)
  then have "two_digits t = Some n" by (simp add: two_digits_string_of_nat)
  with n show "\<exists>n. two_digits t = Some n \<and> 20 \<le> n \<and> n \<le> 60" by auto
qed

lemma size_token_cases:
  "is_valid_size_token token \<longleftrightarrow>
     (py_upper (py_strip token) \<in> set VALID_SIZE_WORDS
      \<or> py_replace '' '' [] (py_upper (py_strip token)) \<in> set VALID_SIZE_WORDS
      \<or> (\<exists>n. two_digits (py_upper (py_strip token)) = Some n \<and> 20 \<le> n \<and> n \<le> 60))"
  unfolding is_valid_size_token_def Let_def
  by (auto simp: VALID_SIZE_WORDS_def two_digits_def split: option.splits)

lemma size_examples:
  "is_valid_size_token ''s''" "is_valid_size_token ''M ''" "is_valid_size_token ''29''"
  "\<not> is_valid_size_token ''junk''"
  "\<not> is_valid_size_token ''XXXXL''" "\<not> is_valid_size_token ''XXXXXL''"
  by code_simp+

lemma size_example_set:
  "collect_sizes [''s'', ''M '', ''29'', ''junk''] [] [] [] = [''29'', ''M'', ''S'']"
  by code_simp

text \<open>
  C5, as the code has it, for tokens of ASCII characters. Such a token is accepted
  exactly when its stripped, uppercased form, or that form without its spaces, is one of
  the eighteen labels of \<open>VALID_SIZE_WORDS\<close>, or is the decimal text of a number from
  20 to 60. The lettered labels stop at XXXL: XXXXL and XXXXXL are not accepted (4XL and
  5XL are). The tokens \<open>s\<close>, \<open>M \<close> and \<open>29\<close> are accepted, \<open>junk\<close> is not, and the
  collected sizes are \<open>29\<close>, \<open>M\<close>, \<open>S\<close>.
\<close>

theorem size_token_rule:
  "(ascii_text token \<longrightarrow>
      (is_valid_size_token token \<longleftrightarrow>
        (py_upper (py_strip token) \<in> set VALID_SIZE_WORDS
         \<or> py_replace '' '' [] (py_upper (py_strip token)) \<in> set VALID_SIZE_WORDS
         \<or> py_upper (py_strip token) \<in> set (map string_of_nat [20..<61]))))
   \<and> \<not> is_valid_size_token ''XXXXL'' \<and> \<not> is_valid_size_token ''XXXXXL''
   \<and> is_valid_size_token ''4XL'' \<and> is_valid_size_token ''5XL''
   \<and> is_valid_size_token ''s'' \<and> is_valid_size_token ''M '' \<and> is_valid_size_token ''29''
   \<and> \<not> is_valid_size_token ''junk''
   \<and> collect_sizes [''s'', ''M '', ''29'', ''junk''] [] [] [] = [''29'', ''M'', ''S'']"
proof -
  have "is_valid_size_token ''4XL''" "is_valid_size_token ''5XL''" by code_simp+
  then show ?thesis
    using size_token_cases[of token] two_digits_range[of "py_upper (py_strip token)"]
      size_examples size_example_set
    by simp
qed

theorem size_token_rule_witness:
  "ascii_text '' one size '' \<and> is_valid_size_token '' one size ''
   \<and> ascii_text ''32'' \<and> is_valid_size_token ''32''
   \<and> ascii_text ''61'' \<and> \<not> is_valid_size_token ''61''"
proof -
  have t: "ascii_text '' one size ''" "ascii_text ''32''" "ascii_text ''61''" by code_simp+
  have a: "py_upper (py_strip '' one size '') \<in> set VALID_SIZE_WORDS" by code_simp
  have b: "py_upper (py_strip ''32'') \<in> set (map string_of_nat [20..<61])" by code_simp
  have c: "py_upper (py_strip ''61'') \<notin> set VALID_SIZE_WORDS"
    "py_replace '' '' [] (py_upper (py_strip ''61'')) \<notin> set VALID_SIZE_WORDS"
    "py_upper (py_strip ''61'') \<notin> set (map string_of_nat [20..<61])" by code_simp+
  show ?thesis
    using size_token_rule[of "'' one size ''"] size_token_rule[of "''32''"]
      size_token_rule[of "''61''"] t a b c
    by blast
qed

text \<open>
  C5 as the specification words it: a set of labels that runs up to XXXXXL accepts
  XXXXL, which the code rejects.
\<close>

theorem size_range_counterexample:
  "spec_valid_size ''XXXXL'' \<and> \<not> is_valid_size_token ''XXXXL''"
  by code_simp

section \<open>Properties of the cleaner\<close>

lemma dict_get_set: "dict_get (dict_set d k v) k' = (if k' = k then v else dict_get d k')"
  by (simp add: dict_get_def dict_set_def update_conv')

lemma clean_object:
  "loads (strip_fences answer) = Some (JObj resp) \<Longrightarrow>
   clean_product_data loads hostname raw answer =
     (case fill_currency hostname raw (enforce_scraped raw resp) of
        Inl e \<Rightarrow> Inl e
      | Inr c \<Rightarrow> Inr (Some (clean_style_tags c)))"
  by (simp add: clean_product_data_def)

lemma enforce_scraped_get:
  "dict_get (enforce_scraped raw c) ''product_name'' =
     (if filled (raw_title raw) then JStr (or_empty (raw_title raw)) else dict_get c ''product_name'')"
  "dict_get (enforce_scraped raw c) ''brand'' =
     (if raw_brand raw \<noteq> [] then JStr (raw_brand raw) else dict_get c ''brand'')"
  "dict_get (enforce_scraped raw c) ''price'' =
     (if filled (raw_price raw) then JStr (or_empty (raw_price raw)) else dict_get c ''price'')"
  "dict_get (enforce_scraped raw c) ''product_url'' =
     (if url raw \<noteq> [] then JStr (url raw) else dict_get c ''product_url'')"
  "dict_get (enforce_scraped raw c) ''image_url'' =
     (if raw_images raw \<noteq> [] then JStr (hd (raw_images raw)) else dict_get c ''image_url'')"
  "dict_get (enforce_scraped raw c) ''sizes_available'' =
     (if raw_sizes raw \<noteq> [] then JArr (map JStr (raw_sizes raw)) else dict_get c ''sizes_available'')"
  by (simp_all add: enforce_scraped_def Let_def dict_get_set)

lemma enforce_scraped_other:
  "k \<notin> set [''product_name'', ''brand'', ''price'', ''product_url'', ''image_url'', ''sizes_available''] \<Longrightarrow>
   dict_get (enforce_scraped raw c) k = dict_get c k"
  by (simp add: enforce_scraped_def Let_def dict_get_set)

lemma fill_currency_other:
  "fill_currency hostname raw c = Inr c' \<Longrightarrow> k \<noteq> ''currency'' \<Longrightarrow> dict_get c' k = dict_get c k"
  by (auto simp: fill_currency_def dict_get_set split: if_splits sum.splits)

lemma fill_currency_error:
  "fill_currency hostname raw c = Inl e \<Longrightarrow> hostname (url raw) = Inl e"
  by (auto simp: fill_currency_def infer_currency_def Let_def split: if_splits sum.splits)

lemma fill_currency_returns:
  "hostname (url raw) = Inr h \<Longrightarrow> \<exists>c'. fill_currency hostname raw c = Inr c'"
  by (auto simp: fill_currency_def infer_currency_def Let_def split: if_splits sum.splits)

lemma clean_style_tags_other:
  "k \<noteq> ''style_tags'' \<Longrightarrow> dict_get (clean_style_tags c) k = dict_get c k"
  by (auto simp: clean_style_tags_def Let_def dict_get_set split: json.splits)

lemma clean_cases:
  assumes "loads (strip_fences answer) = Some (JObj resp)"
  shows "(\<exists>c. fill_currency hostname raw (enforce_scraped raw resp) = Inr c
            \<and> clean_product_data loads hostname raw answer = Inr (Some (clean_style_tags c)))
         \<or> (\<exists>e. clean_product_data loads hostname raw answer = Inl e \<and> hostname (url raw) = Inl e)"
  using fill_currency_error[of hostname raw "enforce_scraped raw resp"] assms
    clean_object[of loads answer resp hostname raw]
  by (cases "fill_currency hostname raw (enforce_scraped raw resp)") simp_all

lemma clean_result_get:
  assumes "loads (strip_fences answer) = Some (JObj resp)"
    and "clean_product_data loads hostname raw answer = Inr (Some out)"
    and "k \<noteq> ''currency''" "k \<noteq> ''style_tags''"
  shows "dict_get out k = dict_get (enforce_scraped raw resp) k"
proof -
  from clean_cases[of loads answer resp hostname raw] assms(1,2)
  obtain c where c: "fill_currency hostname raw (enforce_scraped raw resp) = Inr c"
    and out: "out = clean_style_tags c" by auto
  show ?thesis
    using fill_currency_other[OF c assms(3)] assms(4) by (simp add: out clean_style_tags_other)
qed

lemma clean_not_None:
  assumes "loads (strip_fences answer) = Some (JObj resp)"
  shows "clean_product_data loads hostname raw answer \<noteq> Inr None"
  using clean_cases[of loads answer resp hostname raw] assms by auto




lemma startswith_iff: "startswith s p \<longleftrightarrow> (\<exists>suf. s = p @ suf)"
  unfolding startswith_def
  by (metis append_eq_conv_conj append_take_drop_id)

lemma py_in_iff: "py_in sub s \<longleftrightarrow> (\<exists>pre suf. s = pre @ sub @ suf)"
proof (induction s)
  case Nil
  then show ?case by auto
next
  case (Cons c cs)
  show ?case
  proof
    assume "py_in sub (c # cs)"
    then consider "startswith (c # cs) sub" | "py_in sub cs" by auto
    then show "\<exists>pre suf. c # cs = pre @ sub @ suf"
    proof cases
      case 1
      then obtain suf where "c # cs = sub @ suf" by (auto simp: startswith_iff)
      then have "c # cs = [] @ sub @ suf" by simp
      then show ?thesis by blast
    next
      case 2
      then obtain pre suf where "cs = pre @ sub @ suf" using Cons.IH by auto
      then have "c # cs = (c # pre) @ sub @ suf" by simp
      then show ?thesis by blast
    qed
  next
    assume "\<exists>pre suf. c # cs = pre @ sub @ suf"
    then obtain pre suf where e: "c # cs = pre @ sub @ suf" by blast
    show "py_in sub (c # cs)"
    proof (cases pre)
      case Nil
      with e have "startswith (c # cs) sub" by (auto simp: startswith_iff)
      then show ?thesis by simp
    next
      case (Cons a pre')
      with e have "cs = pre' @ sub @ suf" by simp
      then have "py_in sub cs" using Cons.IH by blast
      then show ?thesis by simp
    qed
  qed
qed

lemma endswith_iff: "endswith s p \<longleftrightarrow> (\<exists>pre. s = pre @ p)"
  unfolding endswith_def
  by (metis append_eq_conv_conj append_take_drop_id diff_diff_cancel length_append length_drop add_diff_cancel_right' le_add2)

lemma endswith_py_in: "endswith s p \<Longrightarrow> py_in p s"
  unfolding endswith_iff py_in_iff by (metis append_Nil2)



lemma clean_currency:
  assumes "loads (strip_fences answer) = Some (JObj resp)"
    and "\<not> truthy (dict_get resp ''currency'')"
    and "infer_currency hostname raw = Inr cur"
  shows "\<exists>out. clean_product_data loads hostname raw answer = Inr (Some out)
           \<and> dict_get out ''currency'' = JStr cur"
proof -
  have "dict_get (enforce_scraped raw resp) ''currency'' = dict_get resp ''currency''"
    by (simp add: enforce_scraped_other)
  then have "fill_currency hostname raw (enforce_scraped raw resp)
      = Inr (dict_set (enforce_scraped raw resp) ''currency'' (JStr cur))"
    using assms(2,3) by (simp add: fill_currency_def)
  then show ?thesis
    using clean_object[of loads answer resp hostname raw] assms(1)
    by (simp add: clean_style_tags_other dict_get_set)
qed

lemma infer_currency_symbols:
  "py_in euro (or_empty (raw_price raw)) \<Longrightarrow> infer_currency hostname raw = Inr ''EUR''"
  "\<not> py_in euro (or_empty (raw_price raw)) \<Longrightarrow> py_in dollar (or_empty (raw_price raw)) \<Longrightarrow>
     infer_currency hostname raw = Inr ''USD''"
  "\<not> py_in euro (or_empty (raw_price raw)) \<Longrightarrow> \<not> py_in dollar (or_empty (raw_price raw)) \<Longrightarrow>
     py_in pound (or_empty (raw_price raw)) \<Longrightarrow> infer_currency hostname raw = Inr ''GBP''"
  by (simp_all add: infer_currency_def Let_def)

lemma infer_currency_host:
  assumes "\<not> py_in euro (or_empty (raw_price raw))" "\<not> py_in dollar (or_empty (raw_price raw))"
    "\<not> py_in pound (or_empty (raw_price raw))" "hostname (url raw) = Inr h"
  shows "infer_currency hostname raw =
     Inr (if py_in ''.co.uk'' (or_empty h) \<or> endswith (or_empty h) ''.uk'' then ''GBP''
          else if list_ex (\<lambda>tld. py_in tld (or_empty h)) EU_TLDS then ''EUR'' else ''GBP'')"
  using assms by (simp add: infer_currency_def Let_def)

lemma eu_tld_substring:
  "list_ex (endswith host) EU_TLDS \<Longrightarrow> list_ex (\<lambda>tld. py_in tld host) EU_TLDS"
  by (auto simp: list_ex_iff intro: endswith_py_in)



lemma add_allowed_none:
  "\<forall>a\<in>set as. py_lower t \<noteq> py_lower a \<Longrightarrow> add_allowed t as f = f"
  by (induction as arbitrary: f) auto

lemma add_allowed_find:
  "distinct (map py_lower as) \<Longrightarrow>
   add_allowed t as f =
     (case List.find (\<lambda>a. py_lower t = py_lower a) as of
        None \<Rightarrow> f
      | Some a \<Rightarrow> if a \<in> set f then f else f @ [a])"
proof (induction as arbitrary: f)
  case Nil
  then show ?case by simp
next
  case (Cons a as)
  show ?case
  proof (cases "py_lower t = py_lower a")
    case True
    with Cons.prems have "\<forall>b\<in>set as. py_lower t \<noteq> py_lower b" by auto
    then show ?thesis using True by (simp add: add_allowed_none)
  next
    case False
    with Cons show ?thesis by simp
  qed
qed

lemma allowed_lower_distinct: "distinct (map py_lower ALLOWED_STYLE_TAGS)"
  by code_simp

lemma add_allowed_match:
  "add_allowed (py_strip s) ALLOWED_STYLE_TAGS f =
     (case allowed_match (JStr s) of None \<Rightarrow> f | Some a \<Rightarrow> if a \<in> set f then f else f @ [a])"
  using add_allowed_find[OF allowed_lower_distinct, of "py_strip s" f]
  by (simp add: allowed_match_def)

lemma keep_first_seen_set: "set s1 = set s2 \<Longrightarrow> keep_first s1 xs = keep_first s2 xs"
proof (induction xs arbitrary: s1 s2)
  case Nil
  then show ?case by simp
next
  case (Cons x xs)
  from Cons.prems have "keep_first (x # s1) xs = keep_first (x # s2) xs" by (intro Cons.IH) simp
  moreover have "keep_first s1 xs = keep_first s2 xs" using Cons.prems by (rule Cons.IH)
  ultimately show ?case using Cons.prems by simp
qed

lemma keep_first_set: "set (keep_first seen xs) = set xs - set seen"
  by (induction xs arbitrary: seen) auto

lemma keep_first_distinct: "distinct (keep_first seen xs)"
  by (induction xs arbitrary: seen) (auto simp: keep_first_set)

lemma allowed_match_JStr_None[simp]:
  "allowed_match JNull = None" "allowed_match (JBool b) = None" "allowed_match (JInt i) = None"
  "allowed_match (JFloat r) = None" "allowed_match (JArr xs) = None" "allowed_match (JObj kvs) = None"
  by (simp_all add: allowed_match_def)

lemma filter_tags_keep_first:
  "filter_tags ts f = f @ keep_first f (List.map_filter allowed_match ts)"
proof (induction ts arbitrary: f)
  case Nil
  then show ?case by (simp add: map_filter_simps)
next
  case (Cons t ts)
  show ?case
  proof (cases t)
    case (JStr s)
    show ?thesis
    proof (cases "allowed_match (JStr s)")
      case None
      then show ?thesis using Cons.IH[of f] JStr by (simp add: add_allowed_match map_filter_simps)
    next
      case (Some a)
      show ?thesis
      proof (cases "a \<in> set f")
        case True
        then show ?thesis using Cons.IH[of f] JStr Some by (simp add: add_allowed_match map_filter_simps)
      next
        case False
        have "keep_first (a # f) (List.map_filter allowed_match ts)
            = keep_first (f @ [a]) (List.map_filter allowed_match ts)"
          by (rule keep_first_seen_set) simp
        then show ?thesis
          using Cons.IH[of "f @ [a]"] JStr Some False by (simp add: add_allowed_match map_filter_simps)
      qed
    qed
  qed (use Cons.IH[of f] in \<open>simp_all add: map_filter_simps\<close>)
qed

lemma allowed_match_in: "allowed_match t = Some a \<Longrightarrow> a \<in> set ALLOWED_STYLE_TAGS"
  by (cases t) (auto simp: allowed_match_def find_Some_iff)

lemma matches_allowed: "set (List.map_filter allowed_match ts) \<subseteq> set ALLOWED_STYLE_TAGS"
  by (auto simp: map_filter_def dest: allowed_match_in)

lemma distinct_subset_length:
  assumes "distinct fs" "set fs \<subseteq> set A"
  shows "length fs \<le> length A"
proof -
  have "length fs = card (set fs)" using assms(1) by (simp add: distinct_card)
  also have "\<dots> \<le> card (set A)" using assms(2) by (simp add: card_mono)
  also have "\<dots> \<le> length A" by (rule card_length)
  finally show ?thesis .
qed

lemma filtered_tags_props:
  "distinct (filter_tags ts [])" "set (filter_tags ts []) \<subseteq> set ALLOWED_STYLE_TAGS"
  "length (filter_tags ts []) \<le> 9"
proof -
  show d: "distinct (filter_tags ts [])" by (simp add: filter_tags_keep_first keep_first_distinct)
  show s: "set (filter_tags ts []) \<subseteq> set ALLOWED_STYLE_TAGS"
    using matches_allowed[of ts] by (simp add: filter_tags_keep_first keep_first_set)
  have "length ALLOWED_STYLE_TAGS = 9" by (simp add: ALLOWED_STYLE_TAGS_def)
  then show "length (filter_tags ts []) \<le> 9" using distinct_subset_length[OF d s] by simp
qed

lemma clean_style_tags_get:
  "dict_get (clean_style_tags c) ''style_tags'' =
     (case (if truthy (dict_get c ''style_tags'') then dict_get c ''style_tags'' else JArr []) of
        JArr ts \<Rightarrow> JArr (map JStr (filter_tags ts []))
      | v \<Rightarrow> v)"
  by (auto simp: clean_style_tags_def Let_def dict_get_set split: json.splits)

lemma clean_result_style_tags:
  assumes "loads (strip_fences answer) = Some (JObj resp)"
    and "clean_product_data loads hostname raw answer = Inr (Some out)"
  shows "dict_get out ''style_tags'' =
     (case (if truthy (dict_get resp ''style_tags'') then dict_get resp ''style_tags'' else JArr []) of
        JArr ts \<Rightarrow> JArr (map JStr (filter_tags ts []))
      | v \<Rightarrow> v)"
proof -
  from clean_cases[of loads answer resp hostname raw] assms(1,2)
  obtain c where c: "fill_currency hostname raw (enforce_scraped raw resp) = Inr c"
    and out: "out = clean_style_tags c" by auto
  have "dict_get c ''style_tags'' = dict_get resp ''style_tags''"
    using fill_currency_other[OF c, of "''style_tags''"] by (simp add: enforce_scraped_other)
  then show ?thesis by (simp add: out clean_style_tags_get)
qed

text \<open>
  C1. When the answer parses to an object, \<open>clean_product_data\<close> returns a record (or
  passes on the error of \<open>urlparse\<close>), and in that record every scraped field that is
  not empty has the scraped value: the name, the brand, the price, the URL, the first
  image and the sizes, whatever the answer held for them.
\<close>

theorem ground_truth:
  assumes "loads (strip_fences answer) = Some (JObj resp)"
  shows "case clean_product_data loads hostname raw answer of
           Inr (Some out) \<Rightarrow>
             (filled (raw_title raw) \<longrightarrow> dict_get out ''product_name'' = JStr (or_empty (raw_title raw)))
           \<and> (raw_brand raw \<noteq> [] \<longrightarrow> dict_get out ''brand'' = JStr (raw_brand raw))
           \<and> (filled (raw_price raw) \<longrightarrow> dict_get out ''price'' = JStr (or_empty (raw_price raw)))
           \<and> (url raw \<noteq> [] \<longrightarrow> dict_get out ''product_url'' = JStr (url raw))
           \<and> (raw_images raw \<noteq> [] \<longrightarrow> dict_get out ''image_url'' = JStr (hd (raw_images raw)))
           \<and> (raw_sizes raw \<noteq> [] \<longrightarrow> dict_get out ''sizes_available'' = JArr (map JStr (raw_sizes raw)))
         | Inr None \<Rightarrow> False
         | Inl e \<Rightarrow> hostname (url raw) = Inl e"
proof (cases "clean_product_data loads hostname raw answer")
  case (Inl e)
  then show ?thesis using clean_cases[of loads answer resp hostname raw] assms by auto
next
  case (Inr r)
  then obtain out where out: "clean_product_data loads hostname raw answer = Inr (Some out)"
    using clean_not_None[of loads answer resp hostname raw] assms by (cases r) auto
  note g = clean_result_get[of loads answer resp hostname raw out, OF assms out]
  show ?thesis
    by (simp add: out g enforce_scraped_get)
qed



theorem ground_truth_witness:
  "case clean_product_data example_loads (hostname_table []) example_raw (fence @ ''json'' @ example_text @ fence) of
     Inr (Some out) \<Rightarrow>
       dict_get out ''product_name'' = JStr ''Pocket Tee'' \<and> dict_get out ''brand'' = JStr ''Acme''
       \<and> dict_get out ''price'' = JStr ''$10.00'' \<and> dict_get out ''product_url'' = JStr ''https://acme.com/p/pocket-tee''
       \<and> dict_get out ''image_url'' = JStr ''https://acme.com/img/pocket-tee-front.jpg''
       \<and> dict_get out ''sizes_available'' = JArr [JStr ''M'', JStr ''S'']
   | _ \<Rightarrow> False"
proof -
  have p: "example_loads (strip_fences (fence @ ''json'' @ example_text @ fence)) = Some (JObj example_object)"
    by code_simp
  show ?thesis
    using ground_truth[of example_loads "fence @ ''json'' @ example_text @ fence" example_object
        "hostname_table []" example_raw, OF p]
    by (auto simp: example_raw_def filled_def or_empty_def hostname_table_def split: sum.splits option.splits)
qed

text \<open>
  C2 as the specification words it fails for the description: the code does not
  assign it, so the description of the answer stands even when one was scraped.
\<close>

theorem description_counterexample:
  "filled (raw_description example_raw)
   \<and> (case clean_product_data example_loads (hostname_table []) example_raw example_text of
         Inr (Some out) \<Rightarrow> dict_get out ''description'' \<noteq> JStr (or_empty (raw_description example_raw))
       | _ \<Rightarrow> False)"
  by code_simp

text \<open>
  C2, as the code has it. The six scraped fields that are not empty are in the record
  as scraped; the description, like every key the function does not assign, is that of
  the answer.
\<close>

theorem populated_fields:
  assumes "loads (strip_fences answer) = Some (JObj resp)"
    and "clean_product_data loads hostname raw answer = Inr (Some out)"
  shows "(filled (raw_title raw) \<longrightarrow> dict_get out ''product_name'' = JStr (or_empty (raw_title raw)))
       \<and> (raw_brand raw \<noteq> [] \<longrightarrow> dict_get out ''brand'' = JStr (raw_brand raw))
       \<and> (filled (raw_price raw) \<longrightarrow> dict_get out ''price'' = JStr (or_empty (raw_price raw)))
       \<and> (url raw \<noteq> [] \<longrightarrow> dict_get out ''product_url'' = JStr (url raw))
       \<and> (raw_images raw \<noteq> [] \<longrightarrow> dict_get out ''image_url'' = JStr (hd (raw_images raw)))
       \<and> (raw_sizes raw \<noteq> [] \<longrightarrow> dict_get out ''sizes_available'' = JArr (map JStr (raw_sizes raw)))
       \<and> dict_get out ''description'' = dict_get resp ''description''
       \<and> (k \<notin> set [''product_name'', ''brand'', ''price'', ''product_url'', ''image_url'',
                    ''sizes_available'', ''currency'', ''style_tags'']
            \<longrightarrow> dict_get out k = dict_get resp k)"
proof -
  note g = clean_result_get[of loads answer resp hostname raw out, OF assms]
  have "dict_get out ''description'' = dict_get resp ''description''"
    by (simp add: g enforce_scraped_other)
  moreover have "dict_get out k = dict_get resp k"
    if "k \<notin> set [''product_name'', ''brand'', ''price'', ''product_url'', ''image_url'',
                    ''sizes_available'', ''currency'', ''style_tags'']"
    using that g[of k] enforce_scraped_other[of k raw resp] by simp
  ultimately show ?thesis by (simp add: g enforce_scraped_get)
qed

theorem populated_fields_witness:
  "clean_product_data example_loads (hostname_table []) example_raw example_text = Inr (Some example_output)
   \<and> dict_get example_output ''price'' = JStr (or_empty (raw_price example_raw))
   \<and> dict_get example_output ''description'' = dict_get example_object ''description''
   \<and> dict_get example_output ''category'' = dict_get example_object ''category''"
proof -
  have p: "example_loads (strip_fences example_text) = Some (JObj example_object)"
    by code_simp
  have e: "clean_product_data example_loads (hostname_table []) example_raw example_text
      = Inr (Some example_output)"
    by code_simp
  have f: "filled (raw_price example_raw)" by code_simp
  have k: "''category'' \<notin> set [''product_name'', ''brand'', ''price'', ''product_url'', ''image_url'',
                    ''sizes_available'', ''currency'', ''style_tags'']" by simp
  show ?thesis
    using populated_fields[of example_loads example_text example_object "hostname_table []"
        example_raw example_output "''category''", OF p e] e f k
    by blast
qed

text \<open>
  C3 as the specification words it fails: five allowed tags in the answer give five
  tags in the record.
\<close>

theorem style_tags_counterexample:
  "case clean_product_data example_loads (hostname_table []) example_raw five_tags_text of
     Inr (Some out) \<Rightarrow> \<not> spec_style_tags (dict_get out ''style_tags'')
   | _ \<Rightarrow> False"
  by code_simp

text \<open>
  C3, as the code has it. When the \<open>style_tags\<close> of the answer are a list (or are
  missing, or false), the record holds the allowed tags that the strings of the list
  match after stripping, without regard to case, each once and in the order of its
  first match; they are allowed tags, distinct even without regard to case, and at most
  nine, the size of the vocabulary. A value that is true and not a list is left as it is.
\<close>

theorem style_tags_filter:
  assumes "loads (strip_fences answer) = Some (JObj resp)"
    and "clean_product_data loads hostname raw answer = Inr (Some out)"
  shows "case (if truthy (dict_get resp ''style_tags'') then dict_get resp ''style_tags'' else JArr []) of
           JArr ts \<Rightarrow>
             dict_get out ''style_tags'' = JArr (map JStr (filter_tags ts []))
             \<and> filter_tags ts [] = keep_first [] (List.map_filter allowed_match ts)
             \<and> set (filter_tags ts []) \<subseteq> set ALLOWED_STYLE_TAGS
             \<and> distinct (map py_lower (filter_tags ts []))
             \<and> length (filter_tags ts []) \<le> 9
         | v \<Rightarrow> dict_get out ''style_tags'' = v"
proof -
  define v where "v = (if truthy (dict_get resp ''style_tags'') then dict_get resp ''style_tags'' else JArr [])"
  have r: "dict_get out ''style_tags'' = (case v of JArr ts \<Rightarrow> JArr (map JStr (filter_tags ts [])) | w \<Rightarrow> w)"
    using clean_result_style_tags[of loads answer resp hostname raw out, OF assms] by (simp add: v_def)
  have inj: "inj_on py_lower (set ALLOWED_STYLE_TAGS)"
    using allowed_lower_distinct by (simp add: distinct_map)
  have d: "distinct (map py_lower (filter_tags ts []))" for ts
    using filtered_tags_props(1,2)[of ts] inj by (auto simp: distinct_map intro: inj_on_subset)
  have k: "filter_tags ts [] = keep_first [] (List.map_filter allowed_match ts)" for ts
    using filter_tags_keep_first[of ts "[]"] by simp
  have "case v of
           JArr ts \<Rightarrow>
             dict_get out ''style_tags'' = JArr (map JStr (filter_tags ts []))
             \<and> filter_tags ts [] = keep_first [] (List.map_filter allowed_match ts)
             \<and> set (filter_tags ts []) \<subseteq> set ALLOWED_STYLE_TAGS
             \<and> distinct (map py_lower (filter_tags ts []))
             \<and> length (filter_tags ts []) \<le> 9
         | v \<Rightarrow> dict_get out ''style_tags'' = v"
  proof (cases v)
    case (JArr ts)
    show ?thesis
      unfolding JArr json.case
      using r[unfolded JArr json.case] k[of ts] filtered_tags_props(2,3)[of ts] d[of ts]
      by blast
  qed (use r in simp_all)
  then show ?thesis by (simp only: v_def)
qed

theorem style_tags_filter_witness:
  "clean_product_data example_loads (hostname_table []) example_raw example_text = Inr (Some example_output)
   \<and> dict_get example_output ''style_tags'' = JArr (map JStr (filter_tags example_tags []))
   \<and> filter_tags example_tags [] = keep_first [] (List.map_filter allowed_match example_tags)
   \<and> filter_tags example_tags [] = [''#y2k'', ''#skater'']
   \<and> length (filter_tags example_tags []) \<le> 9"
proof -
  have p: "example_loads (strip_fences example_text) = Some (JObj example_object)"
    by code_simp
  have e: "clean_product_data example_loads (hostname_table []) example_raw example_text
      = Inr (Some example_output)"
    by code_simp
  have v: "(if truthy (dict_get example_object ''style_tags'') then dict_get example_object ''style_tags''
            else JArr []) = JArr example_tags"
    by code_simp
  have f: "filter_tags example_tags [] = [''#y2k'', ''#skater'']" by code_simp
  note T = style_tags_filter[of example_loads example_text example_object "hostname_table []"
      example_raw example_output, OF p e, unfolded v json.case]
  from T e f show ?thesis by blast
qed

text \<open>
  The currency block, as the code has it. When the answer has no currency, the record's
  currency is EUR for a price with the euro sign, else USD for one with the dollar sign,
  else GBP for one with the pound sign; for a price with none of them it is GBP when
  the host contains \<open>.co.uk\<close> or ends with \<open>.uk\<close>, else EUR when the host contains
  \<open>.de\<close>, \<open>.fr\<close>, \<open>.es\<close> or \<open>.it\<close> anywhere (as a host that ends with one of them
  does), else GBP.
\<close>

theorem currency_cascade:
  assumes "loads (strip_fences answer) = Some (JObj resp)"
    and "\<not> truthy (dict_get resp ''currency'')"
  shows
    "(py_in euro (or_empty (raw_price raw)) \<longrightarrow>
        (\<exists>out. clean_product_data loads hostname raw answer = Inr (Some out)
               \<and> dict_get out ''currency'' = JStr ''EUR''))
   \<and> (\<not> py_in euro (or_empty (raw_price raw)) \<and> py_in dollar (or_empty (raw_price raw)) \<longrightarrow>
        (\<exists>out. clean_product_data loads hostname raw answer = Inr (Some out)
               \<and> dict_get out ''currency'' = JStr ''USD''))
   \<and> (\<not> py_in euro (or_empty (raw_price raw)) \<and> \<not> py_in dollar (or_empty (raw_price raw))
        \<and> py_in pound (or_empty (raw_price raw)) \<longrightarrow>
        (\<exists>out. clean_product_data loads hostname raw answer = Inr (Some out)
               \<and> dict_get out ''currency'' = JStr ''GBP''))
   \<and> (\<not> py_in euro (or_empty (raw_price raw)) \<and> \<not> py_in dollar (or_empty (raw_price raw))
        \<and> \<not> py_in pound (or_empty (raw_price raw)) \<and> hostname (url raw) = Inr h \<longrightarrow>
        (\<exists>out. clean_product_data loads hostname raw answer = Inr (Some out)
               \<and> dict_get out ''currency'' =
                   JStr (if py_in ''.co.uk'' (or_empty h) \<or> endswith (or_empty h) ''.uk'' then ''GBP''
                         else if list_ex (\<lambda>tld. py_in tld (or_empty h)) EU_TLDS then ''EUR''
                         else ''GBP'')))
   \<and> (list_ex (endswith (or_empty h)) EU_TLDS \<longrightarrow> list_ex (\<lambda>tld. py_in tld (or_empty h)) EU_TLDS)"
  using clean_currency[of loads answer resp hostname raw, OF assms]
    infer_currency_symbols[of raw hostname] infer_currency_host[of raw hostname h]
    eu_tld_substring[of "or_empty h"]
  by auto

theorem currency_cascade_examples:
  "(\<exists>out. clean_product_data empty_loads example_hosts pound_raw ''{}'' = Inr (Some out)
          \<and> dict_get out ''currency'' = JStr ''GBP'')
   \<and> (\<exists>out. clean_product_data empty_loads example_hosts (plain_raw ''https://example.co.uk/p/1'') ''{}''
            = Inr (Some out) \<and> dict_get out ''currency'' = JStr ''GBP'')
   \<and> (\<exists>out. clean_product_data empty_loads example_hosts (plain_raw ''https://shop.example.de/p/1'') ''{}''
            = Inr (Some out) \<and> dict_get out ''currency'' = JStr ''EUR'')"
proof -
  have p: "empty_loads (strip_fences ''{}'') = Some (JObj [])" by code_simp
  have c: "\<not> truthy (dict_get [] ''currency'')" by code_simp
  note T = currency_cascade[of empty_loads "''{}''" "[]", OF p c]
  have s1: "\<not> py_in euro (or_empty (raw_price pound_raw))"
    "\<not> py_in dollar (or_empty (raw_price pound_raw))"
    "py_in pound (or_empty (raw_price pound_raw))" by code_simp+
  have w1: "\<exists>out. clean_product_data empty_loads example_hosts pound_raw ''{}'' = Inr (Some out)
          \<and> dict_get out ''currency'' = JStr ''GBP''"
    using T[of pound_raw example_hosts None] s1 by blast
  have s2: "\<not> py_in euro (or_empty (raw_price (plain_raw u)))"
    "\<not> py_in dollar (or_empty (raw_price (plain_raw u)))"
    "\<not> py_in pound (or_empty (raw_price (plain_raw u)))" for u
    unfolding plain_raw_def by code_simp+
  have h2: "example_hosts (url (plain_raw ''https://example.co.uk/p/1'')) = Inr (Some ''example.co.uk'')"
    by code_simp
  have i2: "(if py_in ''.co.uk'' (or_empty (Some ''example.co.uk'')) \<or> endswith (or_empty (Some ''example.co.uk'')) ''.uk''
             then ''GBP''
             else if list_ex (\<lambda>tld. py_in tld (or_empty (Some ''example.co.uk''))) EU_TLDS then ''EUR'' else ''GBP'')
            = ''GBP''" by code_simp
  have w2: "\<exists>out. clean_product_data empty_loads example_hosts (plain_raw ''https://example.co.uk/p/1'') ''{}''
            = Inr (Some out) \<and> dict_get out ''currency'' = JStr ''GBP''"
    using T[of "plain_raw ''https://example.co.uk/p/1''" example_hosts "Some ''example.co.uk''"] s2 h2
    unfolding i2 by blast
  have h3: "example_hosts (url (plain_raw ''https://shop.example.de/p/1'')) = Inr (Some ''shop.example.de'')"
    by code_simp
  have i3: "(if py_in ''.co.uk'' (or_empty (Some ''shop.example.de'')) \<or> endswith (or_empty (Some ''shop.example.de'')) ''.uk''
             then ''GBP''
             else if list_ex (\<lambda>tld. py_in tld (or_empty (Some ''shop.example.de''))) EU_TLDS then ''EUR'' else ''GBP'')
            = ''EUR''" by code_simp
  have w3: "\<exists>out. clean_product_data empty_loads example_hosts (plain_raw ''https://shop.example.de/p/1'') ''{}''
            = Inr (Some out) \<and> dict_get out ''currency'' = JStr ''EUR''"
    using T[of "plain_raw ''https://shop.example.de/p/1''" example_hosts "Some ''shop.example.de''"] s2 h3
    unfolding i3 by blast
  from w1 w2 w3 show ?thesis by blast
qed

text \<open>
  C8 fails on the code where the host is consulted: the test for the four European
  domains is a substring test. For the host \<open>www.dell.com\<close>, whose top-level domain is
  \<open>com\<close>, and a price without a currency sign, the code stores EUR, not the default GBP.
\<close>

theorem tld_substring_currency:
  "(case clean_product_data empty_loads example_hosts (plain_raw ''https://www.dell.com/p/1'') ''{}'' of
      Inr (Some out) \<Rightarrow> dict_get out ''currency'' = JStr ''EUR''
    | _ \<Rightarrow> False)
   \<and> example_hosts ''https://www.dell.com/p/1'' = Inr (Some ''www.dell.com'')
   \<and> last (py_split CHR ''.'' ''www.dell.com'') = ''com''
   \<and> \<not> list_ex (endswith ''www.dell.com'') EU_TLDS
   \<and> \<not> endswith ''www.dell.com'' ''.uk'' \<and> \<not> py_in ''.co.uk'' ''www.dell.com''
   \<and> py_in ''.de'' ''www.dell.com''"
  by code_simp

section \<open>Properties of the server\<close>


lemma not_in_set_Inr:
  "not_in_set v S = Inr b \<Longrightarrow> b = (v \<notin> JStr ` set S)"
  by (cases v) (auto simp: not_in_set_def)

lemma not_in_set_total:
  "(\<forall>xs. v \<noteq> JArr xs) \<Longrightarrow> (\<forall>kvs. v \<noteq> JObj kvs) \<Longrightarrow> not_in_set v S = Inr (v \<notin> JStr ` set S)"
  by (cases v) (auto simp: not_in_set_def)

lemma scrape_result:
  assumes "scrape now host data = Inr out"
  shows "\<exists>d h. data = Some d \<and> host = Inr h
     \<and> dict_get out ''category'' =
          (if dict_get d ''category'' \<in> JStr ` set VALID_CATEGORY then dict_get d ''category'' else JNull)
     \<and> dict_get out ''gender_target'' =
          (if dict_get d ''gender_target'' \<in> JStr ` set VALID_GENDER then dict_get d ''gender_target'' else JNull)
     \<and> dict_get out ''scraped_at'' = JStr now
     \<and> dict_get out ''source_domain'' = JStr (or_empty h)"
  using assms
  by (auto simp: scrape_def Let_def dict_get_set split: option.splits sum.splits if_splits dest!: not_in_set_Inr)

lemma scrape_returns:
  assumes "\<forall>xs. dict_get d ''category'' \<noteq> JArr xs" "\<forall>kvs. dict_get d ''category'' \<noteq> JObj kvs"
    "\<forall>xs. dict_get d ''gender_target'' \<noteq> JArr xs" "\<forall>kvs. dict_get d ''gender_target'' \<noteq> JObj kvs"
  shows "\<exists>out. scrape now (Inr h) (Some d) = Inr out"
  using assms
  by (simp add: scrape_def Let_def dict_get_set not_in_set_total)

text \<open>
  The guard, as the code has it. A record that \<open>scrape\<close> returns has a category that is
  one of the six allowed values or null, and a gender target that is one of the three
  allowed values or null: an allowed value of the pipeline is kept and every other value
  that can be hashed is cleared. A record is returned whenever the two values can be
  hashed.
\<close>

theorem scrape_enum_guard:
  "(scrape now host data = Inr out \<longrightarrow>
      (dict_get out ''category'' = JNull \<or> dict_get out ''category'' \<in> JStr ` set VALID_CATEGORY)
    \<and> (dict_get out ''gender_target'' = JNull \<or> dict_get out ''gender_target'' \<in> JStr ` set VALID_GENDER)
    \<and> (\<exists>d. data = Some d
          \<and> dict_get out ''category'' =
              (if dict_get d ''category'' \<in> JStr ` set VALID_CATEGORY then dict_get d ''category'' else JNull)
          \<and> dict_get out ''gender_target'' =
              (if dict_get d ''gender_target'' \<in> JStr ` set VALID_GENDER then dict_get d ''gender_target''
               else JNull)))
   \<and> (hashable (dict_get d' ''category'') \<and> hashable (dict_get d' ''gender_target'') \<longrightarrow>
        (\<exists>out'. scrape now (Inr h) (Some d') = Inr out'))"
proof -
  have "\<exists>out'. scrape now (Inr h) (Some d') = Inr out'"
    if "hashable (dict_get d' ''category'')" "hashable (dict_get d' ''gender_target'')"
    using that by (intro scrape_returns) (auto simp: hashable_def)
  moreover have "(dict_get out ''category'' = JNull \<or> dict_get out ''category'' \<in> JStr ` set VALID_CATEGORY)
    \<and> (dict_get out ''gender_target'' = JNull \<or> dict_get out ''gender_target'' \<in> JStr ` set VALID_GENDER)
    \<and> (\<exists>d. data = Some d
          \<and> dict_get out ''category'' =
              (if dict_get d ''category'' \<in> JStr ` set VALID_CATEGORY then dict_get d ''category'' else JNull)
          \<and> dict_get out ''gender_target'' =
              (if dict_get d ''gender_target'' \<in> JStr ` set VALID_GENDER then dict_get d ''gender_target''
               else JNull))"
    if "scrape now host data = Inr out"
    using scrape_result[OF that] by (auto split: if_splits)
  ultimately show ?thesis by blast
qed

theorem scrape_enum_guard_witness:
  "scrape ''2026-01-01T00:00:00'' (Inr (Some ''acme.com'')) (Some guard_input)
     = Inr [(''product_name'', JStr ''Pocket Tee''), (''category'', JNull), (''gender_target'', JStr ''unisex''),
            (''scraped_at'', JStr ''2026-01-01T00:00:00''), (''source_domain'', JStr ''acme.com'')]
   \<and> dict_get [(''product_name'', JStr ''Pocket Tee''), (''category'', JNull), (''gender_target'', JStr ''unisex''),
            (''scraped_at'', JStr ''2026-01-01T00:00:00''), (''source_domain'', JStr ''acme.com'')] ''category'' = JNull
   \<and> (\<exists>out'. scrape ''2026-01-01T00:00:00'' (Inr (Some ''acme.com'')) (Some guard_input) = Inr out')"
proof -
  have e: "scrape ''2026-01-01T00:00:00'' (Inr (Some ''acme.com'')) (Some guard_input)
     = Inr [(''product_name'', JStr ''Pocket Tee''), (''category'', JNull), (''gender_target'', JStr ''unisex''),
            (''scraped_at'', JStr ''2026-01-01T00:00:00''), (''source_domain'', JStr ''acme.com'')]"
    by code_simp
  have n: "dict_get guard_input ''category'' \<notin> JStr ` set VALID_CATEGORY" by code_simp
  have hs: "hashable (dict_get guard_input ''category'')" "hashable (dict_get guard_input ''gender_target'')"
    by code_simp+
  show ?thesis
    using scrape_enum_guard[of "''2026-01-01T00:00:00''" "Inr (Some ''acme.com'')" "Some guard_input" _
        guard_input "Some ''acme.com''"] e n hs
    by auto
qed

text \<open>
  C9 fails on the code for a value that cannot be hashed: an answer whose category is a
  list passes through \<open>clean_product_data\<close> as it is, and the membership test of
  \<open>scrape\<close> raises \<open>TypeError\<close> instead of clearing it.
\<close>

theorem list_category_raises:
  "case clean_product_data list_category_loads (hostname_table []) example_raw list_category_text of
     Inr (Some out) \<Rightarrow>
       dict_get out ''category'' = JArr [JStr ''top'']
       \<and> scrape ''2026-01-01T00:00:00'' (Inr (Some ''acme.com'')) (Some out) = Inl TypeError
   | _ \<Rightarrow> False"
  by code_simp

section \<open>Properties of the brand and price helpers\<close>

lemma title_from_length: "length (title_from prev s) = length s"
  by (induction s arbitrary: prev) auto

lemma py_title_empty: "py_title s = [] \<longleftrightarrow> s = []"
  using title_from_length[of False s] unfolding py_title_def by (metis length_0_conv)

lemma py_strip_empty: "py_strip s = [] \<longleftrightarrow> list_all is_space s"
proof
  assume "py_strip s = []"
  then have a: "\<forall>x\<in>set (dropWhile is_space s). is_space x"
    by (simp add: py_strip_def dropWhile_eq_Nil_conv)
  have "dropWhile is_space s = []"
  proof (rule ccontr)
    assume n: "dropWhile is_space s \<noteq> []"
    then have "\<not> is_space (hd (dropWhile is_space s))" by (rule hd_dropWhile)
    moreover have "hd (dropWhile is_space s) \<in> set (dropWhile is_space s)" using n by simp
    ultimately show False using a by blast
  qed
  then show "list_all is_space s" by (simp add: dropWhile_eq_Nil_conv list_all_iff)
next
  assume "list_all is_space s"
  then have "dropWhile is_space s = []" by (simp add: dropWhile_eq_Nil_conv list_all_iff)
  then show "py_strip s = []" unfolding py_strip_def by (simp only: rev.simps dropWhile.simps)
qed

lemma domain_brand_empty: "domain_brand host = [] \<longleftrightarrow> list_all is_space (domain_remainder host)"
  by (simp add: domain_brand_def py_title_empty py_strip_empty)

lemma detect_brand_fallback:
  "\<not> truthy (extract_brand_from_jsonld loads html) \<Longrightarrow> hostname u = Inr h \<Longrightarrow>
   detect_brand loads hostname u html = Inr (domain_brand (or_empty h))"
  by (simp add: detect_brand_def)

text \<open>
  C4 as the specification words it fails: for the host \<open>shop.example.com\<close> the first
  segment is \<open>shop\<close>, nothing is left of it, and the brand is the empty string.
\<close>

theorem domain_fallback_counterexample:
  "detect_brand (map_of []) brand_hosts ''https://shop.example.com/p/1'' plain_html = Inr []"
  by code_simp

text \<open>
  C4, as the code has it. When no brand comes from the structured data and \<open>urlparse\<close>
  gives a host, \<open>detect_brand\<close> returns the domain brand without failing: the title-cased,
  stripped rest of the first segment, as long as that stripped rest. It is the empty
  string exactly when the removals leave nothing but white space.
\<close>

theorem domain_fallback:
  assumes "\<not> truthy (extract_brand_from_jsonld loads html)" and "hostname u = Inr h"
  shows "detect_brand loads hostname u html = Inr (domain_brand (or_empty h))
       \<and> length (domain_brand (or_empty h)) = length (py_strip (domain_remainder (or_empty h)))
       \<and> (domain_brand (or_empty h) = [] \<longleftrightarrow> list_all is_space (domain_remainder (or_empty h)))"
  using detect_brand_fallback[of loads html hostname u h, OF assms]
  by (simp add: domain_brand_empty) (simp add: domain_brand_def py_title_def title_from_length)

theorem domain_fallback_witness:
  "detect_brand (map_of []) brand_hosts ''https://www.size.co.uk/product/beige-new-balance-204l/19708453/'' plain_html
     = Inr ''Size''
   \<and> domain_brand (or_empty (Some ''www.size.co.uk'')) = ''Size''
   \<and> \<not> list_all is_space (domain_remainder (or_empty (Some ''www.size.co.uk'')))"
proof -
  have a: "\<not> truthy (extract_brand_from_jsonld (map_of []) plain_html)" by code_simp
  have b: "brand_hosts ''https://www.size.co.uk/product/beige-new-balance-204l/19708453/''
      = Inr (Some ''www.size.co.uk'')" by code_simp
  have c: "domain_brand (or_empty (Some ''www.size.co.uk'')) = ''Size''" by code_simp
  note T = domain_fallback[of "map_of []" plain_html brand_hosts
      "''https://www.size.co.uk/product/beige-new-balance-204l/19708453/''" "Some ''www.size.co.uk''", OF a b]
  from T c show ?thesis by (simp only:) simp
qed

text \<open>
  C10 fails on the code: a brand in the structured data that is a list is returned by
  \<open>extract_brand_from_jsonld\<close> as it is, and \<open>brand.strip()\<close> in \<open>detect_brand\<close>
  raises \<open>AttributeError\<close>.
\<close>

theorem brand_list_raises:
  "extract_brand_from_jsonld brand_list_loads brand_list_html = JArr [JStr ''Nike'']
   \<and> detect_brand brand_list_loads brand_hosts ''https://shop.example.com/p/1'' brand_list_html
       = Inl AttributeError"
  by code_simp

lemma first_some_index:
  "first_some f xs = Some y \<longleftrightarrow>
     (\<exists>i<length xs. f (xs ! i) = Some y \<and> (\<forall>j<i. f (xs ! j) = None))"
proof (induction xs)
  case Nil
  then show ?case by simp
next
  case (Cons x xs)
  show ?case
  proof (cases "f x")
    case None
    have "(\<exists>i<length (x # xs). f ((x # xs) ! i) = Some y \<and> (\<forall>j<i. f ((x # xs) ! j) = None))
        \<longleftrightarrow> (\<exists>i<length xs. f (xs ! i) = Some y \<and> (\<forall>j<i. f (xs ! j) = None))"
    proof
      assume "\<exists>i<length (x # xs). f ((x # xs) ! i) = Some y \<and> (\<forall>j<i. f ((x # xs) ! j) = None)"
      then obtain i where i: "i < length (x # xs)" "f ((x # xs) ! i) = Some y"
        "\<forall>j<i. f ((x # xs) ! j) = None" by blast
      with None obtain i' where i': "i = Suc i'" by (cases i) auto
      have "\<forall>j<i'. f (xs ! j) = None"
      proof (intro allI impI)
        fix j assume "j < i'"
        then have "Suc j < i" using i' by simp
        with i(3) have "f ((x # xs) ! Suc j) = None" by blast
        then show "f (xs ! j) = None" by simp
      qed
      with i i' show "\<exists>i<length xs. f (xs ! i) = Some y \<and> (\<forall>j<i. f (xs ! j) = None)"
        by auto
    next
      assume "\<exists>i<length xs. f (xs ! i) = Some y \<and> (\<forall>j<i. f (xs ! j) = None)"
      then obtain i where i: "i < length xs" "f (xs ! i) = Some y" "\<forall>j<i. f (xs ! j) = None"
        by blast
      have "\<forall>j<Suc i. f ((x # xs) ! j) = None"
      proof (intro allI impI)
        fix j assume "j < Suc i"
        then show "f ((x # xs) ! j) = None" using None i(3) by (cases j) auto
      qed
      with i show "\<exists>i<length (x # xs). f ((x # xs) ! i) = Some y \<and> (\<forall>j<i. f ((x # xs) ! j) = None)"
        by (intro exI[of _ "Suc i"]) simp
    qed
    with None Cons.IH show ?thesis by simp
  next
    case (Some z)
    have "(\<exists>i<length (x # xs). f ((x # xs) ! i) = Some y \<and> (\<forall>j<i. f ((x # xs) ! j) = None))
        \<longleftrightarrow> z = y"
    proof
      assume "\<exists>i<length (x # xs). f ((x # xs) ! i) = Some y \<and> (\<forall>j<i. f ((x # xs) ! j) = None)"
      then obtain i where i: "f ((x # xs) ! i) = Some y" "\<forall>j<i. f ((x # xs) ! j) = None" by blast
      show "z = y"
      proof (cases i)
        case 0
        with i Some show ?thesis by simp
      next
        case (Suc n)
        with i(2) have "f ((x # xs) ! 0) = None" by blast
        with Some show ?thesis by simp
      qed
    next
      assume "z = y"
      with Some show "\<exists>i<length (x # xs). f ((x # xs) ! i) = Some y \<and> (\<forall>j<i. f ((x # xs) ! j) = None)"
        by (intro exI[of _ 0]) simp
    qed
    with Some show ?thesis by simp
  qed
qed

lemma first_match_first_some: "first_match ps html = first_some (\<lambda>p. re_search p html) ps"
  by (induction ps) (auto split: option.splits)

lemma price_of_items_first_some: "price_of_items items = first_some nonempty_price items"
  by (induction items) (auto simp: nonempty_price_def split: option.splits)

lemma price_of_blocks_first_some: "price_of_blocks loads blocks = first_some (block_price loads) blocks"
  by (induction blocks) (auto simp: block_price_def split: option.splits)

lemma price_of_data_cases:
  "price_of_data (JObj d) = nonempty_price (JObj d)"
  "price_of_data (JArr items) = first_some nonempty_price items"
  "price_of_data JNull = None" "price_of_data (JBool b) = None" "price_of_data (JInt i) = None"
  "price_of_data (JFloat r) = None" "price_of_data (JStr t) = None"
  by (simp_all add: price_of_data_def nonempty_price_def price_of_items_first_some)

lemma read_price_offers:
  "read_price (JObj d) =
     (case dict_get d ''offers'' of
        JObj offers \<Rightarrow> if dict_has offers ''price'' then Some (py_str (dict_get offers ''price'')) else None
      | _ \<Rightarrow> None)"
  by (simp add: read_price_def)

lemma offers_array_none: "dict_get d ''offers'' = JArr offers \<Longrightarrow> price_of_data (JObj d) = None"
  by (simp add: price_of_data_def read_price_def)

text \<open>
  C7 as the specification words it fails: with \<open>offers\<close> an array of objects and a
  price that no pattern matches, the code finds no price.
\<close>

theorem offers_array_counterexample:
  "extract_price_from_scripts offers_loads offers_array_html = None
   \<and> spec_extract_price offers_loads offers_array_html = Some ''45''"
  by code_simp

text \<open>
  C7, as the code has it. \<open>extract_price_from_scripts\<close> returns the group of the first
  pattern of the list that matches the markup; when none matches, the price of the first
  structured-data block that parses and has one. A block that is an object has the
  price of its \<open>offers\<close> object, printed with \<open>str\<close>, when that text is not empty; a
  block that is an array has the first such price of its items; \<open>offers\<close> given as an
  array has none. The result is a price or \<open>None\<close>: the function raises nothing.
\<close>

theorem price_cascade:
  "extract_price_from_scripts loads html =
     (case first_some (\<lambda>p. re_search p html) patterns of
        Some g \<Rightarrow> Some g
      | None \<Rightarrow> first_some (block_price loads) (re_findall LD_JSON html))
   \<and> (first_some (\<lambda>p. re_search p html) patterns = Some g \<longleftrightarrow>
        (\<exists>i<length patterns. re_search (patterns ! i) html = Some g
            \<and> (\<forall>j<i. re_search (patterns ! j) html = None)))
   \<and> (first_some (block_price loads) blocks = Some price \<longleftrightarrow>
        (\<exists>i<length blocks. block_price loads (blocks ! i) = Some price
            \<and> (\<forall>j<i. block_price loads (blocks ! j) = None)))
   \<and> (json_parse loads block = Some (JObj d) \<longrightarrow> block_price loads block = nonempty_price (JObj d))
   \<and> (json_parse loads block = Some (JArr items) \<longrightarrow> block_price loads block = first_some nonempty_price items)
   \<and> (dict_get d ''offers'' = JObj offers \<and> dict_has offers ''price'' \<longrightarrow>
        read_price (JObj d) = Some (py_str (dict_get offers ''price'')))
   \<and> (dict_get d ''offers'' = JArr offer_list \<longrightarrow> nonempty_price (JObj d) = None)"
proof -
  have 1: "extract_price_from_scripts loads html =
     (case first_some (\<lambda>p. re_search p html) patterns of
        Some g \<Rightarrow> Some g
      | None \<Rightarrow> first_some (block_price loads) (re_findall LD_JSON html))"
    by (simp add: extract_price_from_scripts_def first_match_first_some price_of_blocks_first_some
        split: option.splits)
  have 4: "block_price loads block = nonempty_price (JObj d)" if "json_parse loads block = Some (JObj d)"
    using that by (simp add: block_price_def price_of_data_cases)
  have 5: "block_price loads block = first_some nonempty_price items"
    if "json_parse loads block = Some (JArr items)"
    using that by (simp add: block_price_def price_of_data_cases)
  have 6: "read_price (JObj d) = Some (py_str (dict_get offers ''price''))"
    if "dict_get d ''offers'' = JObj offers" "dict_has offers ''price''"
    using that by (simp add: read_price_offers)
  have 7: "nonempty_price (JObj d) = None" if "dict_get d ''offers'' = JArr offer_list"
    using that by (simp add: nonempty_price_def read_price_offers)
  show ?thesis
    using 1 first_some_index[of "\<lambda>p. re_search p html" patterns g]
      first_some_index[of "block_price loads" blocks price] 4 5 6 7
    by blast
qed

theorem price_cascade_witness:
  \<open>extract_price_from_scripts offers_loads inline_html = Some ''10.00''
   \<and> re_search (patterns ! 0) inline_html = Some ''10.00''
   \<and> re_search (patterns ! 3) inline_html = Some ''9.50''
   \<and> extract_price_from_scripts offers_loads offers_object_html = Some ''45''
   \<and> block_price offers_loads ''{"offers": {"price": 45}}'' = Some ''45''
   \<and> block_price offers_loads ''[{"name": "x"}, {"offers": {"price": 30}}]'' = Some ''30''
   \<and> block_price offers_loads ''{"offers": [{"price": 45}]}'' = None\<close>
proof -
  have a: "first_some (\<lambda>p. re_search p inline_html) patterns = Some ''10.00''" by code_simp
  have b: "re_search (patterns ! 0) inline_html = Some ''10.00''"
    "re_search (patterns ! 3) inline_html = Some ''9.50''" by code_simp+
  have c: "first_some (\<lambda>p. re_search p offers_object_html) patterns = None" by code_simp
  have d: "first_some (block_price offers_loads) (re_findall LD_JSON offers_object_html) = Some ''45''"
    by code_simp
  have o: \<open>json_parse offers_loads ''{"offers": {"price": 45}}''
      = Some (JObj [(''offers'', JObj [(''price'', JInt 45)])])\<close>
    \<open>nonempty_price (JObj [(''offers'', JObj [(''price'', JInt 45)])]) = Some ''45''\<close>
    by code_simp+
  have l: \<open>json_parse offers_loads ''[{"name": "x"}, {"offers": {"price": 30}}]''
      = Some (JArr [JObj [(''name'', JStr ''x'')], JObj [(''offers'', JObj [(''price'', JInt 30)])]])\<close>
    \<open>first_some nonempty_price [JObj [(''name'', JStr ''x'')], JObj [(''offers'', JObj [(''price'', JInt 30)])]]
      = Some ''30''\<close>
    by code_simp+
  have r: \<open>json_parse offers_loads ''{"offers": [{"price": 45}]}''
      = Some (JObj [(''offers'', JArr [JObj [(''price'', JInt 45)]])])\<close>
    \<open>dict_get [(''offers'', JArr [JObj [(''price'', JInt 45)]])] ''offers'' = JArr [JObj [(''price'', JInt 45)]]\<close>
    by code_simp+
  note T1 = price_cascade[of offers_loads inline_html, THEN conjunct1, unfolded a option.case]
  note T2 = price_cascade[of offers_loads offers_object_html, THEN conjunct1, unfolded c option.case d]
  note T3 = price_cascade[of offers_loads _ _ _ _ \<open>''{"offers": {"price": 45}}''\<close>
      "[(''offers'', JObj [(''price'', JInt 45)])]"]
  note T4 = price_cascade[of offers_loads _ _ _ _ \<open>''[{"name": "x"}, {"offers": {"price": 30}}]''\<close> _
      "[JObj [(''name'', JStr ''x'')], JObj [(''offers'', JObj [(''price'', JInt 30)])]]"]
  note T5 = price_cascade[of offers_loads _ _ _ _ \<open>''{"offers": [{"price": 45}]}''\<close>
      "[(''offers'', JArr [JObj [(''price'', JInt 45)]])]" _ _ "[JObj [(''price'', JInt 45)]]"]
  have w3: \<open>block_price offers_loads ''{"offers": {"price": 45}}'' = Some ''45''\<close>
    using T3 o by simp
  have w4: \<open>block_price offers_loads ''[{"name": "x"}, {"offers": {"price": 30}}]'' = Some ''30''\<close>
    using T4 l by simp
  have w5: \<open>block_price offers_loads ''{"offers": [{"price": 45}]}'' = None\<close>
    using T5 r by simp
  from T1 T2 b w3 w4 w5 show ?thesis by blast
qed

section \<open>Properties of the image extractor\<close>

lemma candidate_parts [simp]:
  "score_of (a, b, s) = a" "area_of (a, b, s) = b" "src_of (a, b, s) = s"
  by (simp_all add: score_of_def area_of_def src_of_def)

lemma image_score_nonneg: "0 \<le> image_score mul slug ttl info src_l"
  by (simp add: image_score_def Let_def)

lemma not_dropped_kept: "\<not> dropped s \<Longrightarrow> kept (normalise_src s)"
  by (simp add: dropped_def kept_def)

lemma image_loop_invariant:
  assumes "\<forall>c\<in>set cands. kept (src_of c) \<and> 0 \<le> score_of c"
  shows "\<forall>c\<in>set (image_loop mul slug ttl infos seen cands). kept (src_of c) \<and> 0 \<le> score_of c"
  using assms
proof (induction infos arbitrary: seen cands)
  case Nil
  then show ?case by simp
next
  case (Cons info infos)
  show ?case
  proof (cases "dropped (src info) \<or> normalise_src (src info) \<in> seen")
    case True
    then show ?thesis using Cons.IH[OF Cons.prems] by (auto simp: Let_def)
  next
    case False
    define c where "c = (image_score mul slug ttl info (py_lower (normalise_src (src info))),
        mul (width info) (height info), normalise_src (src info))"
    have "\<forall>x\<in>set (cands @ [c]). kept (src_of x) \<and> 0 \<le> score_of x"
      using Cons.prems False
      by (auto simp: c_def image_score_nonneg not_dropped_kept)
    from Cons.IH[OF this] show ?thesis using False by (simp add: Let_def c_def)
  qed
qed

lemma image_loop_srcs:
  "set (map src_of (image_loop mul slug ttl infos seen cands)) =
     set (map src_of cands) \<union> ({normalise_src (src i) | i. i \<in> set infos \<and> \<not> dropped (src i)} - seen)"
proof (induction infos arbitrary: seen cands)
  case Nil
  then show ?case by simp
next
  case (Cons info infos)
  show ?case
  proof (cases "dropped (src info)")
    case True
    then show ?thesis using Cons.IH[of seen cands] by auto
  next
    case nd: False
    show ?thesis
    proof (cases "normalise_src (src info) \<in> seen")
      case True
      then show ?thesis using nd Cons.IH[of seen cands] by (auto simp: Let_def)
    next
      case False
      then show ?thesis
        using nd Cons.IH[of "insert (normalise_src (src info)) seen"
            "cands @ [(image_score mul slug ttl info (py_lower (normalise_src (src info))),
               mul (width info) (height info), normalise_src (src info))]"]
        by (auto simp: Let_def)
    qed
  qed
qed

lemma image_loop_distinct:
  assumes "distinct (map src_of cands)" "set (map src_of cands) \<subseteq> seen"
  shows "distinct (map src_of (image_loop mul slug ttl infos seen cands))"
  using assms
proof (induction infos arbitrary: seen cands)
  case Nil
  then show ?case by simp
next
  case (Cons info infos)
  show ?case
  proof (cases "dropped (src info) \<or> normalise_src (src info) \<in> seen")
    case True
    then show ?thesis using Cons.IH[OF Cons.prems] by (auto simp: Let_def)
  next
    case False
    define c where "c = (image_score mul slug ttl info (py_lower (normalise_src (src info))),
        mul (width info) (height info), normalise_src (src info))"
    have "distinct (map src_of (cands @ [c]))"
      "set (map src_of (cands @ [c])) \<subseteq> insert (normalise_src (src info)) seen"
      using Cons.prems False by (auto simp: c_def)
    from Cons.IH[OF this] show ?thesis using False by (simp add: Let_def c_def)
  qed
qed

lemma sort_desc_set: "set (sort_desc cs) = set cs"
  by (simp add: sort_desc_def)

lemma sort_desc_distinct: "distinct (map src_of (sort_desc cs)) = distinct (map src_of cs)"
  by (simp add: sort_desc_def distinct_map)

lemma sort_desc_sorted: "sorted_wrt ranks_before (sort_desc cs)"
proof -
  have r: "ranks_before = (\<lambda>a b. (score_of a, area_of a) \<ge> (score_of b, area_of b))"
    by (auto simp: ranks_before_def less_eq_prod_def fun_eq_iff)
  have "sorted (map (\<lambda>c. (score_of c, area_of c)) (sort_key (\<lambda>c. (score_of c, area_of c)) (rev cs)))"
    by (rule sorted_sort_key)
  then have "sorted_wrt (\<lambda>a b. (score_of a, area_of a) \<le> (score_of b, area_of b))
      (sort_key (\<lambda>c. (score_of c, area_of c)) (rev cs))"
    by (simp add: sorted_wrt_map)
  then show ?thesis by (simp add: sort_desc_def sorted_wrt_rev r)
qed

lemma sort_desc_Nil: "sort_desc cs = [] \<longleftrightarrow> cs = []"
  using sort_desc_set[of cs] by (metis set_empty)

lemma filter_takeWhile_sorted:
  assumes "sorted_wrt R xs" "\<And>a b. R a b \<Longrightarrow> P b \<Longrightarrow> P a"
  shows "filter P xs = takeWhile P xs"
  using assms(1)
proof (induction xs)
  case Nil
  then show ?case by simp
next
  case (Cons x xs)
  show ?case
  proof (cases "P x")
    case True
    then show ?thesis using Cons by simp
  next
    case False
    have "\<not> P y" if "y \<in> set xs" for y
      using Cons.prems that assms(2)[of x y] False by auto
    then have "filter P xs = []" by (simp add: filter_empty_conv)
    then show ?thesis using False by simp
  qed
qed

lemma py_lower_append: "py_lower (a @ b) = py_lower a @ py_lower b"
  by (simp add: py_lower_def)

lemma py_in_lower: "py_in b s \<Longrightarrow> py_in (py_lower b) (py_lower s)"
  unfolding py_in_iff by (metis py_lower_append)

lemma blocklist_lower: "list_all (\<lambda>b. py_lower b = b) IMAGE_BLOCKLIST"
  by code_simp

lemma kept_not_blocked:
  assumes "kept s" "b \<in> set IMAGE_BLOCKLIST"
  shows "\<not> py_in b s" "\<not> py_in b (py_lower s)"
proof -
  show l: "\<not> py_in b (py_lower s)"
    using assms by (auto simp: kept_def any_in_def list_ex_iff)
  have "py_lower b = b" using blocklist_lower assms(2) by (simp add: list_all_iff)
  then show "\<not> py_in b s" using py_in_lower[of b s] l by auto
qed


lemma ranked_props:
  "distinct (map src_of (ranked_candidates mul infos u title))"
  "\<forall>c\<in>set (ranked_candidates mul infos u title). kept (src_of c) \<and> 0 \<le> score_of c"
  "sorted_wrt ranks_before (ranked_candidates mul infos u title)"
  "set (map src_of (ranked_candidates mul infos u title)) =
     {normalise_src (src i) | i. i \<in> set infos \<and> \<not> dropped (src i)}"
proof -
  show "distinct (map src_of (ranked_candidates mul infos u title))"
    unfolding ranked_candidates_def sort_desc_distinct by (rule image_loop_distinct) simp_all
  show "\<forall>c\<in>set (ranked_candidates mul infos u title). kept (src_of c) \<and> 0 \<le> score_of c"
    unfolding ranked_candidates_def sort_desc_set by (rule image_loop_invariant) simp
  show "sorted_wrt ranks_before (ranked_candidates mul infos u title)"
    unfolding ranked_candidates_def by (rule sort_desc_sorted)
  show "set (map src_of (ranked_candidates mul infos u title)) =
     {normalise_src (src i) | i. i \<in> set infos \<and> \<not> dropped (src i)}"
    using image_loop_srcs[of mul "slug_tokens u" "title_tokens title" infos "{}" "[]"]
    by (simp add: ranked_candidates_def sort_desc_set)
qed

lemma extract_images_cases:
  "extract_images_from_page mul infos u title =
     (if \<exists>c\<in>set (ranked_candidates mul infos u title). score_of c > 0
      then take 10 (map src_of (filter (\<lambda>c. score_of c > 0) (ranked_candidates mul infos u title)))
      else take 5 (map src_of (ranked_candidates mul infos u title)))"
proof -
  have "filter (\<lambda>c. score_of c > 0) cs \<noteq> [] \<longleftrightarrow> (\<exists>c\<in>set cs. score_of c > 0)" for cs :: "candidate list"
    by (simp add: filter_empty_conv)
  then show ?thesis
    unfolding extract_images_from_page_def Let_def by (auto simp: filter_empty_conv)
qed

lemma positive_prefix:
  "filter (\<lambda>c. score_of c > 0) (ranked_candidates mul infos u title)
     = takeWhile (\<lambda>c. score_of c > 0) (ranked_candidates mul infos u title)"
  by (rule filter_takeWhile_sorted[OF ranked_props(3)]) (auto simp: ranks_before_def)

lemma fallback_by_area:
  assumes "\<not> (\<exists>c\<in>set (ranked_candidates mul infos u title). score_of c > 0)"
  shows "sorted_wrt (\<lambda>a b. area_of a \<ge> area_of b) (ranked_candidates mul infos u title)"
proof -
  have z: "score_of c = 0" if "c \<in> set (ranked_candidates mul infos u title)" for c
    using assms ranked_props(2)[of mul infos u title] that by force
  show ?thesis
    by (rule sorted_wrt_mono_rel[OF _ ranked_props(3)]) (auto simp: z ranks_before_def)
qed

text \<open>
  C6 as the specification words it fails for the absolute URLs: the code keeps every
  source that starts with \<open>http\<close>, and a relative path that does, as a lazy-load
  attribute may hold one, is returned as it is.
\<close>

theorem absolute_url_counterexample:
  "extract_images_from_page times relative_infos ''https://acme.com/p/pocket-tee'' ''Pocket Tee''
     = [''httpdocs/img/hero.jpg'']
   \<and> \<not> spec_absolute ''httpdocs/img/hero.jpg''"
  by code_simp

text \<open>
  C6, as the code has it, for every multiplication \<open>mul\<close>. The list that
  \<open>extract_images_from_page\<close> returns has no duplicates and at most ten entries; each
  entry starts with \<open>http\<close> and contains no blocklisted substring, with or without
  regard to case. The surviving candidates, one for each source that passes the tests,
  are ranked by score and then by area, both descending. When one of them has a positive
  score the result is the first ten sources among those with a positive score, which
  head the ranking; otherwise it is the first five of the ranking, which is then a
  ranking by area. The result is empty only when no candidate survived.
\<close>

theorem image_ranking:
  "distinct (extract_images_from_page mul infos u title)
   \<and> length (extract_images_from_page mul infos u title) \<le> 10
   \<and> (\<forall>s\<in>set (extract_images_from_page mul infos u title).
         startswith s ''http''
         \<and> (\<forall>b\<in>set IMAGE_BLOCKLIST. \<not> py_in b s \<and> \<not> py_in b (py_lower s)))
   \<and> sorted_wrt ranks_before (ranked_candidates mul infos u title)
   \<and> distinct (map src_of (ranked_candidates mul infos u title))
   \<and> set (map src_of (ranked_candidates mul infos u title)) =
        {normalise_src (src i) | i. i \<in> set infos \<and> \<not> dropped (src i)}
   \<and> ((\<exists>c\<in>set (ranked_candidates mul infos u title). score_of c > 0) \<longrightarrow>
        extract_images_from_page mul infos u title =
          take 10 (map src_of (takeWhile (\<lambda>c. score_of c > 0) (ranked_candidates mul infos u title))))
   \<and> (\<not> (\<exists>c\<in>set (ranked_candidates mul infos u title). score_of c > 0) \<longrightarrow>
        extract_images_from_page mul infos u title = take 5 (map src_of (ranked_candidates mul infos u title))
        \<and> sorted_wrt (\<lambda>a b. area_of a \<ge> area_of b) (ranked_candidates mul infos u title))
   \<and> (extract_images_from_page mul infos u title \<noteq> [] \<longleftrightarrow> ranked_candidates mul infos u title \<noteq> [])"
proof -
  define cs where "cs = ranked_candidates mul infos u title"
  define res where "res = extract_images_from_page mul infos u title"
  note P = ranked_props[of mul infos u title, folded cs_def]
  have R: "res = (if \<exists>c\<in>set cs. score_of c > 0
      then take 10 (map src_of (filter (\<lambda>c. score_of c > 0) cs)) else take 5 (map src_of cs))"
    unfolding res_def cs_def by (rule extract_images_cases)
  have sub: "set res \<subseteq> set (map src_of cs)"
    unfolding R by (auto dest!: in_set_takeD)
  have d: "distinct res"
    unfolding R using P(1) by (auto simp: distinct_map_filter)
  have l: "length res \<le> 10" unfolding R by (simp add: min_def)
  have k: "startswith s ''http'' \<and> (\<forall>b\<in>set IMAGE_BLOCKLIST. \<not> py_in b s \<and> \<not> py_in b (py_lower s))"
    if "s \<in> set res" for s
  proof -
    from that sub obtain c where "c \<in> set cs" "s = src_of c" by auto
    with P(2) have "kept s" by blast
    then show ?thesis using kept_not_blocked[of s] by (auto simp: kept_def)
  qed
  have pos: "res = take 10 (map src_of (takeWhile (\<lambda>c. score_of c > 0) cs))"
    if "\<exists>c\<in>set cs. score_of c > 0"
    using that unfolding R cs_def positive_prefix by simp
  have fb: "res = take 5 (map src_of cs) \<and> sorted_wrt (\<lambda>a b. area_of a \<ge> area_of b) cs"
    if "\<not> (\<exists>c\<in>set cs. score_of c > 0)"
    using that fallback_by_area[of mul infos u title] unfolding R cs_def by simp
  have ne: "res \<noteq> [] \<longleftrightarrow> cs \<noteq> []"
  proof (cases "\<exists>c\<in>set cs. score_of c > 0")
    case True
    then have "filter (\<lambda>c. score_of c > 0) cs \<noteq> []" by (simp add: filter_empty_conv)
    moreover from True have "cs \<noteq> []" by auto
    ultimately show ?thesis unfolding R using True by simp
  next
    case False
    then show ?thesis unfolding R by simp
  qed
  show ?thesis
    unfolding res_def[symmetric] cs_def[symmetric]
    using d l k P(3) P(1) P(4) pos fb ne by blast
qed

theorem image_ranking_witness:
  "extract_images_from_page times example_infos ''https://acme.com/p/pocket-tee?x=1'' ''Pocket Tee''
     = [''https://cdn.acme.com/a/pocket-tee-front.jpg'']
   \<and> ranked_candidates times example_infos ''https://acme.com/p/pocket-tee?x=1'' ''Pocket Tee''
     = [(19, 810000, ''https://cdn.acme.com/a/pocket-tee-front.jpg''), (0, 22500, ''https://cdn.acme.com/a/thumb1.jpg'')]
   \<and> extract_images_from_page times example_infos ''https://acme.com/p/pocket-tee?x=1'' ''Pocket Tee''
     = take 10 (map src_of (takeWhile (\<lambda>c. score_of c > 0)
         (ranked_candidates times example_infos ''https://acme.com/p/pocket-tee?x=1'' ''Pocket Tee'')))
   \<and> extract_images_from_page times (take 1 example_infos) ''https://acme.com/p/pocket-tee?x=1'' ''Pocket Tee''
     = take 5 (map src_of (ranked_candidates times (take 1 example_infos) ''https://acme.com/p/pocket-tee?x=1'' ''Pocket Tee''))
   \<and> extract_images_from_page times (take 1 example_infos) ''https://acme.com/p/pocket-tee?x=1'' ''Pocket Tee''
     = [''https://cdn.acme.com/a/thumb1.jpg'']"
proof -
  have r: "ranked_candidates times example_infos ''https://acme.com/p/pocket-tee?x=1'' ''Pocket Tee''
     = [(19, 810000, ''https://cdn.acme.com/a/pocket-tee-front.jpg''), (0, 22500, ''https://cdn.acme.com/a/thumb1.jpg'')]"
    by code_simp
  have e: "extract_images_from_page times example_infos ''https://acme.com/p/pocket-tee?x=1'' ''Pocket Tee''
     = [''https://cdn.acme.com/a/pocket-tee-front.jpg'']"
    "extract_images_from_page times (take 1 example_infos) ''https://acme.com/p/pocket-tee?x=1'' ''Pocket Tee''
     = [''https://cdn.acme.com/a/thumb1.jpg'']"
    by code_simp+
  have p: "\<exists>c\<in>set (ranked_candidates times example_infos ''https://acme.com/p/pocket-tee?x=1'' ''Pocket Tee'').
      score_of c > 0"
    unfolding r by simp
  have n: "\<not> (\<exists>c\<in>set (ranked_candidates times (take 1 example_infos) ''https://acme.com/p/pocket-tee?x=1'' ''Pocket Tee'').
      score_of c > 0)"
    by code_simp
  note T1 = image_ranking[of times example_infos "''https://acme.com/p/pocket-tee?x=1''" "''Pocket Tee''"]
  note T2 = image_ranking[of times "take 1 example_infos" "''https://acme.com/p/pocket-tee?x=1''" "''Pocket Tee''"]
  from T1 T2 p n r e show ?thesis by blast
qed

end
